theory Spec2Isabelle
  imports Main "HOL-Library.Word" "HOL-Library.Sublist" "HOL-Library.Char_ord"
    "HOL-Library.List_Lexorder"
begin

section \<open>Go library functions used by the decoders and the proxy\<close>

text \<open>
  Go strings are byte sequences; \<^typ>\<open>string\<close> is a list of 8-bit characters. A Go
  \<^verbatim>\<open>error\<close> is modelled by its message. A run-time panic is a value of its own.
\<close>

datatype panic = IndexOutOfRange | TruncateOutOfRange | TypeAssertion

text \<open>
  The white space of \<^verbatim>\<open>unicode.IsSpace\<close>, each rune in its UTF-8 encoding: the six ASCII
  characters, U+0085, U+00A0, U+1680, U+2000 to U+200A, U+2028, U+2029, U+202F, U+205F
  and U+3000.
\<close>

definition White_Space :: "string list" where
  "White_Space =
     [[CHR 0x09], [CHR 0x0A], [CHR 0x0B], [CHR 0x0C], [CHR 0x0D], [CHR 0x20],
      [CHR 0xC2, CHR 0x85], [CHR 0xC2, CHR 0xA0], [CHR 0xE1, CHR 0x9A, CHR 0x80],
      [CHR 0xE2, CHR 0x80, CHR 0x80], [CHR 0xE2, CHR 0x80, CHR 0x81],
      [CHR 0xE2, CHR 0x80, CHR 0x82], [CHR 0xE2, CHR 0x80, CHR 0x83],
      [CHR 0xE2, CHR 0x80, CHR 0x84], [CHR 0xE2, CHR 0x80, CHR 0x85],
      [CHR 0xE2, CHR 0x80, CHR 0x86], [CHR 0xE2, CHR 0x80, CHR 0x87],
      [CHR 0xE2, CHR 0x80, CHR 0x88], [CHR 0xE2, CHR 0x80, CHR 0x89],
      [CHR 0xE2, CHR 0x80, CHR 0x8A], [CHR 0xE2, CHR 0x80, CHR 0xA8],
      [CHR 0xE2, CHR 0x80, CHR 0xA9], [CHR 0xE2, CHR 0x80, CHR 0xAF],
      [CHR 0xE2, CHR 0x81, CHR 0x9F], [CHR 0xE3, CHR 0x80, CHR 0x80]]"

text \<open>
  \<open>strip tbl s\<close> removes from the front of \<open>s\<close> every leading occurrence of a byte
  sequence of \<open>tbl\<close>. \<^verbatim>\<open>strings.TrimSpace\<close> (and \<^verbatim>\<open>bytes.TrimSpace\<close>) removes the leading
  white-space runes and then the trailing ones; an invalid UTF-8 byte decodes to U+FFFD,
  which is not white space, so trimming stops there.
\<close>

fun strip :: "string list \<Rightarrow> string \<Rightarrow> string" where
  "strip tbl [] = []"
| "strip tbl (c # cs) =
     (case find (\<lambda>w. prefix w (c # cs)) tbl of
        None \<Rightarrow> c # cs
      | Some w \<Rightarrow> strip tbl (drop (length w - 1) cs))"

definition TrimSpace :: "string \<Rightarrow> string" where
  "TrimSpace s = rev (strip (map rev White_Space) (rev (strip White_Space s)))"

text \<open>
  \<^verbatim>\<open>strings.ToLower\<close>, as far as its result is looked at: ASCII capitals are folded, and
  so are the two runes beyond ASCII whose lower case is an ASCII letter (U+212A KELVIN
  SIGN to \<open>k\<close>, U+0130 to \<open>i\<close>). Go maps the other runes beyond ASCII to runes beyond
  ASCII; they are left as they are here, and the only use of the result, three prefix
  tests against ASCII words, cannot tell the difference.
\<close>

definition is_upper :: "char \<Rightarrow> bool" where
  "is_upper c \<longleftrightarrow> CHR ''A'' \<le> c \<and> c \<le> CHR ''Z''"

definition is_lower :: "char \<Rightarrow> bool" where
  "is_lower c \<longleftrightarrow> CHR ''a'' \<le> c \<and> c \<le> CHR ''z''"

definition to_lower :: "char \<Rightarrow> char" where
  "to_lower c = (if is_upper c then char_of (of_char c + (32::nat)) else c)"

definition to_upper :: "char \<Rightarrow> char" where
  "to_upper c = (if is_lower c then char_of (of_char c - (32::nat)) else c)"

fun ToLower :: "string \<Rightarrow> string" where
  "ToLower [] = []"
| "ToLower (c # cs) =
     (if prefix [CHR 0xE2, CHR 0x84, CHR 0xAA] (c # cs) then CHR ''k'' # ToLower (drop 2 cs)
      else if prefix [CHR 0xC4, CHR 0xB0] (c # cs) then CHR ''i'' # ToLower (drop 1 cs)
      else to_lower c # ToLower cs)"

text \<open>\<^verbatim>\<open>strings.HasPrefix(s, p)\<close>.\<close>

definition HasPrefix :: "string \<Rightarrow> string \<Rightarrow> bool" where
  "HasPrefix s p \<longleftrightarrow> prefix p s"

text \<open>
  \<^verbatim>\<open>strings.Split(s, sep)\<close> for a one-byte separator: the pieces between the separators,
  one more than there are separators.
\<close>

primrec Split :: "string \<Rightarrow> char \<Rightarrow> string list" where
  "Split [] sep = [[]]"
| "Split (c # cs) sep =
     (if c = sep then [] # Split cs sep
      else (case Split cs sep of [] \<Rightarrow> [[c]] | w # ws \<Rightarrow> (c # w) # ws))"

text \<open>Go's integer division truncates towards zero.\<close>

definition quo :: "int \<Rightarrow> int \<Rightarrow> int" where
  "quo a b = (if (a < 0) = (b < 0) then \<bar>a\<bar> div \<bar>b\<bar> else - (\<bar>a\<bar> div \<bar>b\<bar>))"

section \<open>USB addresses and address lists (usbcommon.go)\<close>

text \<open>
  \<^verbatim>\<open>UsbAddr\<close> is a struct of two Go \<^verbatim>\<open>int\<close> fields. The functions below only compare
  the fields (\<^verbatim>\<open><\<close> and \<^verbatim>\<open>==\<close>), never do arithmetic on them, so the fields are
  modelled as \<^typ>\<open>int\<close>: every 64-bit value is an \<^typ>\<open>int\<close> with the same order.
\<close>

record UsbAddr =
  Bus :: int
  Address :: int

type_synonym UsbAddrList = "UsbAddr list"

text \<open>
  \<^verbatim>\<open>UsbDeviceInfo\<close>. The struct in usbcommon.go has the vendor id, the serial number, the
  manufacturer and the product name; \<^verbatim>\<open>EsclService\<close> reads \<^verbatim>\<open>usbinfo.Product\<close> as a
  string and \<^verbatim>\<open>ippAttrs.decode\<close> reads \<^verbatim>\<open>usbinfo.MfgAndProduct\<close>, so the record has
  these two string fields as well.
\<close>

record UsbDeviceInfo =
  Vendor :: "16 word"
  SerialNumber :: string
  Manufacturer :: string
  ProductName :: string
  Product :: string
  MfgAndProduct :: string


definition Less :: "UsbAddr \<Rightarrow> UsbAddr \<Rightarrow> bool" where
  "Less addr addr2 \<longleftrightarrow>
     Bus addr < Bus addr2 \<or> (Bus addr = Bus addr2 \<and> Address addr < Address addr2)"

text \<open>
  Go's \<^verbatim>\<open>sort.Search(n, f)\<close>: binary search for the smallest index in \<^verbatim>\<open>[0, n)\<close> at
  which \<^verbatim>\<open>f\<close> is true, \<^verbatim>\<open>n\<close> if there is none. The loop of the standard library is
  \<^verbatim>\<open>i, j := 0, n; for i < j { h := (i+j)/2; if !f(h) { i = h+1 } else { j = h } }; return i\<close>.
\<close>

function Search_loop :: "nat \<Rightarrow> nat \<Rightarrow> (nat \<Rightarrow> bool) \<Rightarrow> nat" where
  "Search_loop i j f =
     (if i < j then
        (let h = (i + j) div 2 in
         if \<not> f h then Search_loop (h + 1) j f else Search_loop i h f)
      else i)"
  by pat_completeness auto
termination
  by (relation "measure (\<lambda>(i, j, f). j - i)") auto

declare Search_loop.simps [simp del]

definition Search :: "nat \<Rightarrow> (nat \<Rightarrow> bool) \<Rightarrow> nat" where
  "Search n f = Search_loop 0 n f"

text \<open>
  \<^verbatim>\<open>(*UsbAddrList).Add\<close>. The last branch is the source's "insert item in the middle":
  \<^verbatim>\<open>*list = append(*list, (*list)[i]); (*list)[i] = addr\<close>.
\<close>

definition Add :: "UsbAddrList \<Rightarrow> UsbAddr \<Rightarrow> UsbAddrList" where
  "Add list addr =
     (let i = Search (length list) (\<lambda>n. \<not> Less (list ! n) addr) in
      if i < length list \<and> list ! i = addr then list
      else if i = length list then list @ [addr]
      else (list @ [list ! i])[i := addr])"

text \<open>\<^verbatim>\<open>UsbAddrList.Find\<close>: the index of the address, or \<open>-1\<close>.\<close>

definition Find :: "UsbAddrList \<Rightarrow> UsbAddr \<Rightarrow> int" where
  "Find list addr =
     (let i = Search (length list) (\<lambda>n. \<not> Less (list ! n) addr) in
      if i < length list \<and> list ! i = addr then int i else - 1)"

text \<open>
  \<^verbatim>\<open>UsbAddrList.Diff\<close>: two \<^verbatim>\<open>range\<close> loops, each adding to a result list that starts
  as the nil slice.
\<close>

definition Diff :: "UsbAddrList \<Rightarrow> UsbAddrList \<Rightarrow> UsbAddrList \<times> UsbAddrList" where
  "Diff list1 list2 =
     (let added = foldl (\<lambda>acc a. if Find list1 a < 0 then Add acc a else acc) [] list2;
          removed = foldl (\<lambda>acc a. if Find list2 a < 0 then Add acc a else acc) [] list1
      in (added, removed))"

text \<open>
  The invariant of an address list: ascending by \<open>(bus, device)\<close> and without duplicates,
  that is, each element is \<^const>\<open>Less\<close> than every later one.
\<close>

definition sorted_addrs :: "UsbAddrList \<Rightarrow> bool" where
  "sorted_addrs list \<longleftrightarrow> sorted_wrt Less list"

subsection \<open>The order on addresses and the binary search\<close>

lemma Less_irrefl: "\<not> Less a a"
  by (simp add: Less_def)

lemma Less_trans: "Less a b \<Longrightarrow> Less b c \<Longrightarrow> Less a c"
  by (auto simp: Less_def)

lemma Less_asym: "Less a b \<Longrightarrow> \<not> Less b a"
  by (auto simp: Less_def)

lemma Less_total: "Less a b \<or> a = b \<or> Less b a"
  by (cases a, cases b) (auto simp: Less_def)

lemma Search_loop_inv:
  "i \<le> j \<Longrightarrow> j \<le> n \<Longrightarrow> i = 0 \<or> \<not> f (i - 1) \<Longrightarrow> j = n \<or> f j \<Longrightarrow>
   i \<le> Search_loop i j f \<and> Search_loop i j f \<le> j \<and>
   (Search_loop i j f = 0 \<or> \<not> f (Search_loop i j f - 1)) \<and>
   (Search_loop i j f = n \<or> f (Search_loop i j f))"
proof (induction i j f rule: Search_loop.induct)
  case (1 i j f)
  show ?case
  proof (cases "i < j")
    case False
    then have "Search_loop i j f = i" by (subst Search_loop.simps) simp
    with False "1.prems" show ?thesis by auto
  next
    case True
    define h where "h = (i + j) div 2"
    have hb: "i \<le> h" "h < j" using True by (auto simp: h_def)
    show ?thesis
    proof (cases "f h")
      case True
      have eq: "Search_loop i j f = Search_loop i h f"
        using \<open>i < j\<close> True by (subst Search_loop.simps) (simp add: h_def Let_def)
      have "i \<le> Search_loop i h f \<and> Search_loop i h f \<le> h \<and>
        (Search_loop i h f = 0 \<or> \<not> f (Search_loop i h f - 1)) \<and>
        (Search_loop i h f = n \<or> f (Search_loop i h f))"
        using "1.IH"(2)[OF \<open>i < j\<close> h_def] True hb "1.prems" by auto
      with eq hb "1.prems"(2) show ?thesis by auto
    next
      case False
      have eq: "Search_loop i j f = Search_loop (h + 1) j f"
        using \<open>i < j\<close> False by (subst Search_loop.simps) (simp add: h_def Let_def)
      have "h + 1 \<le> Search_loop (h + 1) j f \<and> Search_loop (h + 1) j f \<le> j \<and>
        (Search_loop (h + 1) j f = 0 \<or> \<not> f (Search_loop (h + 1) j f - 1)) \<and>
        (Search_loop (h + 1) j f = n \<or> f (Search_loop (h + 1) j f))"
        using "1.IH"(1)[OF \<open>i < j\<close> h_def] False hb "1.prems" by auto
      with eq hb "1.prems"(2) show ?thesis by auto
    qed
  qed
qed

lemma Search_bounds:
  "Search n f \<le> n \<and> (Search n f = 0 \<or> \<not> f (Search n f - 1)) \<and> (Search n f = n \<or> f (Search n f))"
  using Search_loop_inv [of 0 n n f] by (simp add: Search_def)


lemma sorted_addrs_nth:
  "sorted_addrs l \<Longrightarrow> m < k \<Longrightarrow> k < length l \<Longrightarrow> Less (l ! m) (l ! k)"
  by (simp add: sorted_addrs_def sorted_wrt_iff_nth_less)

lemma Search_member:
  assumes s: "sorted_addrs l" and m: "m < length l"
  shows "Search (length l) (\<lambda>n. \<not> Less (l ! n) (l ! m)) = m"
proof -
  let ?f = "\<lambda>n. \<not> Less (l ! n) (l ! m)"
  let ?r = "Search (length l) ?f"
  have b: "?r \<le> length l" "?r = 0 \<or> \<not> ?f (?r - 1)" "?r = length l \<or> ?f ?r"
    using Search_bounds [of "length l" ?f] by blast+
  have "\<not> m < ?r"
  proof
    assume lt: "m < ?r"
    then have "Less (l ! (?r - 1)) (l ! m)" using b(2) by auto
    moreover have "m = ?r - 1 \<or> Less (l ! m) (l ! (?r - 1))"
      using sorted_addrs_nth [OF s, of m "?r - 1"] lt b(1) by (cases "m = ?r - 1") auto
    ultimately show False using Less_irrefl Less_asym by metis
  qed
  moreover have "\<not> ?r < m"
  proof
    assume lt: "?r < m"
    then have "?f ?r" using b(3) m by auto
    moreover have "Less (l ! ?r) (l ! m)" using sorted_addrs_nth [OF s lt m] .
    ultimately show False by simp
  qed
  ultimately show ?thesis by simp
qed

lemma Find_neg_iff: "sorted_addrs l \<Longrightarrow> Find l a < 0 \<longleftrightarrow> a \<notin> set l"
proof
  assume s: "sorted_addrs l" and neg: "Find l a < 0"
  show "a \<notin> set l"
  proof
    assume "a \<in> set l"
    then obtain m where m: "m < length l" "l ! m = a" by (auto simp: in_set_conv_nth)
    with Search_member [OF s m(1)] have "Find l a = int m" by (simp add: Find_def)
    with neg show False by simp
  qed
next
  assume "a \<notin> set l"
  then have "\<not> (i < length l \<and> l ! i = a)" for i using nth_mem [of i l] by auto
  then show "Find l a < 0" by (simp add: Find_def Let_def)
qed

lemma Add_append:
  assumes "\<forall>x\<in>set l. Less x a"
  shows "Add l a = l @ [a]"
proof -
  let ?f = "\<lambda>n. \<not> Less (l ! n) a"
  have "Search (length l) ?f = length l \<or> ?f (Search (length l) ?f)"
    and "Search (length l) ?f \<le> length l"
    using Search_bounds [of "length l" ?f] by blast+
  with assms have "Search (length l) ?f = length l"
    by (metis nth_mem le_neq_implies_less)
  then show ?thesis by (simp add: Add_def)
qed

lemma Add_member:
  assumes s: "sorted_addrs l" and a: "a \<in> set l"
  shows "Add l a = l"
proof -
  from a obtain m where m: "m < length l" "l ! m = a" by (auto simp: in_set_conv_nth)
  with Search_member [OF s m(1)] show ?thesis by (simp add: Add_def)
qed

lemma foldl_Add_filter:
  "sorted_addrs (acc @ xs) \<Longrightarrow>
   foldl (\<lambda>acc a. if Find l a < 0 then Add acc a else acc) acc xs =
     acc @ filter (\<lambda>a. Find l a < 0) xs"
proof (induction xs arbitrary: acc)
  case Nil
  then show ?case by simp
next
  case (Cons x xs)
  have all: "\<forall>y\<in>set acc. Less y x"
    using Cons.prems by (simp add: sorted_addrs_def sorted_wrt_append)
  show ?case
  proof (cases "Find l x < 0")
    case True
    have "sorted_addrs ((acc @ [x]) @ xs)" using Cons.prems by simp
    from Cons.IH [OF this] True Add_append [OF all] show ?thesis by simp
  next
    case False
    have "sorted_addrs (acc @ xs)"
      using Cons.prems by (auto simp: sorted_addrs_def sorted_wrt_append)
    from Cons.IH [OF this] False show ?thesis by simp
  qed
qed

lemma Diff_filter:
  assumes "sorted_addrs list1" "sorted_addrs list2"
  shows "Diff list1 list2 =
    (filter (\<lambda>a. a \<notin> set list1) list2, filter (\<lambda>a. a \<notin> set list2) list1)"
  using assms foldl_Add_filter [of "[]" list2 list1] foldl_Add_filter [of "[]" list1 list2]
  by (simp add: Diff_def Find_neg_iff cong: filter_cong)

lemma sorted_addrs_filter: "sorted_addrs l \<Longrightarrow> sorted_addrs (filter P l)"
  by (simp add: sorted_addrs_def sorted_wrt_filter)

lemma sorted_addrs_iff:
  "sorted_addrs l \<longleftrightarrow> sorted_wrt (\<lambda>a b. Less a b \<or> a = b) l \<and> distinct l"
  unfolding sorted_addrs_def
  by (induction l) (auto simp: Less_irrefl)

subsection \<open>Diff of two address lists\<close>

text \<open>
  Claim C2. For sorted duplicate-free lists \<open>list1\<close> and \<open>list2\<close>, \<open>Diff list1 list2\<close>
  returns \<open>(added, removed)\<close> where \<open>added\<close> holds exactly the elements of \<open>list2\<close> that
  are not in \<open>list1\<close>, \<open>removed\<close> exactly the elements of \<open>list1\<close> that are not in
  \<open>list2\<close>, both are sorted ascending by (bus, device) without duplicates, no address is in
  both, and \<open>(list1 \<union> added) - removed = list2\<close> as sets.
\<close>

theorem Diff_correct:
  assumes "sorted_addrs list1" and "sorted_addrs list2"
    and "Diff list1 list2 = (added, removed)"
  shows "set added = set list2 - set list1 \<and>
         set removed = set list1 - set list2 \<and>
         sorted_addrs added \<and> sorted_addrs removed \<and>
         set added \<inter> set removed = {} \<and>
         (set list1 \<union> set added) - set removed = set list2"
proof -
  have a: "added = filter (\<lambda>a. a \<notin> set list1) list2"
    and r: "removed = filter (\<lambda>a. a \<notin> set list2) list1"
    using assms Diff_filter [of list1 list2] by simp_all
  have "set added = set list2 - set list1" using a by auto
  moreover have "set removed = set list1 - set list2" using r by auto
  moreover have "sorted_addrs added" "sorted_addrs removed"
    using a r assms(1,2) by (simp_all add: sorted_addrs_filter)
  ultimately show ?thesis by auto
qed

theorem Diff_correct_witness:
  "sorted_addrs [\<lparr>Bus = 1, Address = 2\<rparr>, \<lparr>Bus = 1, Address = 5\<rparr>, \<lparr>Bus = 2, Address = 1\<rparr>] \<and>
   sorted_addrs [\<lparr>Bus = 1, Address = 3\<rparr>, \<lparr>Bus = 1, Address = 5\<rparr>, \<lparr>Bus = 3, Address = 0\<rparr>] \<and>
   Diff [\<lparr>Bus = 1, Address = 2\<rparr>, \<lparr>Bus = 1, Address = 5\<rparr>, \<lparr>Bus = 2, Address = 1\<rparr>]
        [\<lparr>Bus = 1, Address = 3\<rparr>, \<lparr>Bus = 1, Address = 5\<rparr>, \<lparr>Bus = 3, Address = 0\<rparr>]
     = ([\<lparr>Bus = 1, Address = 3\<rparr>, \<lparr>Bus = 3, Address = 0\<rparr>],
        [\<lparr>Bus = 1, Address = 2\<rparr>, \<lparr>Bus = 2, Address = 1\<rparr>]) \<and>
   sorted_addrs [\<lparr>Bus = 1, Address = 3\<rparr>, \<lparr>Bus = 3, Address = 0\<rparr>] \<and>
   sorted_addrs [\<lparr>Bus = 1, Address = 2\<rparr>, \<lparr>Bus = 2, Address = 1\<rparr>] \<and>
   set [\<lparr>Bus = 1, Address = 3\<rparr>, \<lparr>Bus = 3, Address = 0\<rparr>] \<inter>
     set [\<lparr>Bus = 1, Address = 2\<rparr>, \<lparr>Bus = 2, Address = 1\<rparr>] = {}"
proof -
  have h1: "sorted_addrs [\<lparr>Bus = 1, Address = 2\<rparr>, \<lparr>Bus = 1, Address = 5\<rparr>, \<lparr>Bus = 2, Address = 1\<rparr>]"
    by (simp add: sorted_addrs_def Less_def)
  have h2: "sorted_addrs [\<lparr>Bus = 1, Address = 3\<rparr>, \<lparr>Bus = 1, Address = 5\<rparr>, \<lparr>Bus = 3, Address = 0\<rparr>]"
    by (simp add: sorted_addrs_def Less_def)
  have h3: "Diff [\<lparr>Bus = 1, Address = 2\<rparr>, \<lparr>Bus = 1, Address = 5\<rparr>, \<lparr>Bus = 2, Address = 1\<rparr>]
        [\<lparr>Bus = 1, Address = 3\<rparr>, \<lparr>Bus = 1, Address = 5\<rparr>, \<lparr>Bus = 3, Address = 0\<rparr>]
     = ([\<lparr>Bus = 1, Address = 3\<rparr>, \<lparr>Bus = 3, Address = 0\<rparr>],
        [\<lparr>Bus = 1, Address = 2\<rparr>, \<lparr>Bus = 2, Address = 1\<rparr>])"
    by code_simp
  from Diff_correct [OF h1 h2 h3] h1 h2 h3 show ?thesis by blast
qed

subsection \<open>Add to an address list\<close>

lemma set_move_to_end:
  assumes "i < length l"
  shows "set ((l @ [l ! i])[i := a]) = insert a (set l)"
proof -
  have l: "l = take i l @ l ! i # drop (Suc i) l"
    using assms by (simp add: id_take_nth_drop)
  have "(l @ [l ! i])[i := a] = take i l @ a # drop (Suc i) l @ [l ! i]"
    using assms by (simp add: list_update_append1 upd_conv_take_nth_drop)
  then have "set ((l @ [l ! i])[i := a]) = insert a (set (take i l @ l ! i # drop (Suc i) l))"
    by auto
  with l show ?thesis by simp
qed

lemma set_Add: "set (Add l a) = insert a (set l)"
proof -
  let ?i = "Search (length l) (\<lambda>n. \<not> Less (l ! n) a)"
  have b: "?i \<le> length l" using Search_bounds [of "length l"] by blast
  show ?thesis
  proof (cases "?i < length l \<and> l ! ?i = a")
    case True
    then have "a \<in> set l" using nth_mem by metis
    with True show ?thesis by (auto simp: Add_def)
  next
    case False
    show ?thesis
    proof (cases "?i = length l")
      case True
      with False show ?thesis by (simp add: Add_def)
    next
      case ne: False
      with b have "?i < length l" by simp
      from set_move_to_end [OF this] False ne show ?thesis by (auto simp: Add_def Let_def)
    qed
  qed
qed

text \<open>
  Claim C9. \<open>Add\<close> is meant to keep the list sorted and duplicate-free. Adding an address
  that is already there leaves the list unchanged (\<open>Add_member\<close>), and the elements after
  adding are the old ones and the new one (\<open>set_Add\<close>). But adding a new address that
  belongs before the last element does not keep the order: the element at the insertion
  point is moved to the end instead of the tail being shifted. With the list
  \<open>(0,1), (0,3), (0,5)\<close> and the new address \<open>(0,2)\<close> the result is
  \<open>(0,1), (0,2), (0,5), (0,3)\<close>, which is not sorted.
\<close>

theorem Add_middle_unsorted:
  "sorted_addrs [\<lparr>Bus = 0, Address = 1\<rparr>, \<lparr>Bus = 0, Address = 3\<rparr>, \<lparr>Bus = 0, Address = 5\<rparr>] \<and>
   Add [\<lparr>Bus = 0, Address = 1\<rparr>, \<lparr>Bus = 0, Address = 3\<rparr>, \<lparr>Bus = 0, Address = 5\<rparr>]
       \<lparr>Bus = 0, Address = 2\<rparr>
     = [\<lparr>Bus = 0, Address = 1\<rparr>, \<lparr>Bus = 0, Address = 2\<rparr>, \<lparr>Bus = 0, Address = 5\<rparr>,
        \<lparr>Bus = 0, Address = 3\<rparr>] \<and>
   \<not> sorted_addrs (Add [\<lparr>Bus = 0, Address = 1\<rparr>, \<lparr>Bus = 0, Address = 3\<rparr>, \<lparr>Bus = 0, Address = 5\<rparr>]
       \<lparr>Bus = 0, Address = 2\<rparr>)"
proof -
  have e: "Add [\<lparr>Bus = 0, Address = 1\<rparr>, \<lparr>Bus = 0, Address = 3\<rparr>, \<lparr>Bus = 0, Address = 5\<rparr>]
       \<lparr>Bus = 0, Address = 2\<rparr>
     = [\<lparr>Bus = 0, Address = 1\<rparr>, \<lparr>Bus = 0, Address = 2\<rparr>, \<lparr>Bus = 0, Address = 5\<rparr>,
        \<lparr>Bus = 0, Address = 3\<rparr>]"
    by code_simp
  show ?thesis unfolding e by (simp add: sorted_addrs_def Less_def)
qed

text \<open>\<^verbatim>\<open>strings.Join(list, sep)\<close>.\<close>

fun Join :: "string list \<Rightarrow> string \<Rightarrow> string" where
  "Join [] sep = []"
| "Join [x] sep = x"
| "Join (x # y # ys) sep = x @ sep @ Join (y # ys) sep"

section \<open>eSCL ScannerCapabilities (escl.go)\<close>

text \<open>
  The tokens of \<^verbatim>\<open>encoding/xml\<close>. \<^verbatim>\<open>Decoder.RawToken\<close> does not check that start and
  end elements match and does not translate name space prefixes, so \<open>Space\<close> is the
  prefix as written. The decoder's input is the list of tokens that \<^verbatim>\<open>RawToken\<close>
  returns before its first error (end of input, or a syntax error).
\<close>

record Name =
  Space :: string
  Local :: string

datatype Token =
    StartElement Name "(Name \<times> string) list"
  | EndElement Name
  | CharData string
  | Comment string
  | ProcInst string string
  | Directive string

record esclCapsDecoder =
  uuid :: string
  version :: string
  platen :: bool
  adf :: bool
  duplex :: bool
  pdl :: "string set"
  cs :: "string set"

definition newEsclCapsDecoder :: esclCapsDecoder where
  "newEsclCapsDecoder =
     \<lparr>uuid = [], version = [], platen = False, adf = False, duplex = False,
      pdl = {}, cs = {}\<rparr>"

definition esclPlaten :: string where
  "esclPlaten = ''/scan:ScannerCapabilities/scan:Platen''"

definition esclAdf :: string where
  "esclAdf = ''/scan:ScannerCapabilities/scan:Adf''"

definition esclPlatenInputCaps :: string where
  "esclPlatenInputCaps = esclPlaten @ ''/scan:PlatenInputCaps''"

definition esclAdfSimplexCaps :: string where
  "esclAdfSimplexCaps = esclAdf @ ''/scan:AdfSimplexInputCaps''"

definition esclAdfDuplexCaps :: string where
  "esclAdfDuplexCaps = esclAdf @ ''/scan:AdfDuplexCaps''"

definition esclSettingProfile :: string where
  "esclSettingProfile = ''/scan:SettingProfiles/scan:SettingProfile''"

definition esclColorMode :: string where
  "esclColorMode = esclSettingProfile @ ''/scan:ColorModes/scan:ColorMode''"

definition esclDocumentFormat :: string where
  "esclDocumentFormat = esclSettingProfile @ ''/scan:DocumentFormats/pwg:DocumentFormat''"

text \<open>\<^verbatim>\<open>esclCapsDecoder.element\<close>: the beginning of an XML element.\<close>

definition element :: "esclCapsDecoder \<Rightarrow> string \<Rightarrow> esclCapsDecoder" where
  "element decoder path =
     (if path = esclPlaten then decoder\<lparr>platen := True\<rparr>
      else if path = esclAdf then decoder\<lparr>adf := True\<rparr>
      else decoder)"

text \<open>\<^verbatim>\<open>esclCapsDecoder.data\<close>: the text of an XML element.\<close>

definition data :: "esclCapsDecoder \<Rightarrow> string \<Rightarrow> string \<Rightarrow> esclCapsDecoder" where
  "data decoder path dat =
     (if path = ''/scan:ScannerCapabilities/scan:UUID'' then decoder\<lparr>uuid := dat\<rparr>
      else if path = ''/scan:ScannerCapabilities/pwg:Version'' then decoder\<lparr>version := dat\<rparr>
      else if path = esclPlatenInputCaps @ esclColorMode
            \<or> path = esclAdfSimplexCaps @ esclColorMode
            \<or> path = esclAdfDuplexCaps @ esclColorMode then
        (let dat = ToLower dat in
         if HasPrefix dat ''rgb'' then decoder\<lparr>cs := insert ''color'' (cs decoder)\<rparr>
         else if HasPrefix dat ''grayscale'' then
           decoder\<lparr>cs := insert ''grayscale'' (cs decoder)\<rparr>
         else if HasPrefix dat ''blackandwhite'' then
           decoder\<lparr>cs := insert ''binary'' (cs decoder)\<rparr>
         else decoder)
      else if path = esclPlatenInputCaps @ esclDocumentFormat
            \<or> path = esclAdfSimplexCaps @ esclDocumentFormat
            \<or> path = esclAdfDuplexCaps @ esclDocumentFormat then
        decoder\<lparr>pdl := insert dat (pdl decoder)\<rparr>
      else decoder)"

text \<open>
  The loop of \<^verbatim>\<open>esclCapsDecoder.decode\<close>, with its two local variables: \<open>path\<close> (a
  \<^verbatim>\<open>bytes.Buffer\<close>) and \<open>lenStack\<close>. The loop ends when \<^verbatim>\<open>RawToken\<close> returns an
  error, that is, when the tokens are used up. At an end element the source reads
  \<^verbatim>\<open>lenStack[len(lenStack) - 1]\<close>, which panics on the empty stack, and
  \<^verbatim>\<open>path.Truncate(n)\<close> panics when \<open>n\<close> is beyond the buffer's length.
\<close>

fun decode_loop ::
  "Token list \<Rightarrow> string \<Rightarrow> nat list \<Rightarrow> esclCapsDecoder \<Rightarrow> panic + esclCapsDecoder" where
  "decode_loop [] path lenStack decoder = Inr decoder"
| "decode_loop (StartElement name attrs # ts) path lenStack decoder =
     (let lenStack = lenStack @ [length path];
          path = path @ ''/'' @ Space name @ '':'' @ Local name
      in decode_loop ts path lenStack (element decoder path))"
| "decode_loop (EndElement name # ts) path lenStack decoder =
     (if lenStack = [] then Inl IndexOutOfRange
      else if last lenStack > length path then Inl TruncateOutOfRange
      else decode_loop ts (take (last lenStack) path) (butlast lenStack) decoder)"
| "decode_loop (CharData t # ts) path lenStack decoder =
     (let dat = TrimSpace t in
      if length dat > 0 then decode_loop ts path lenStack (data decoder path dat)
      else decode_loop ts path lenStack decoder)"
| "decode_loop (_ # ts) path lenStack decoder = decode_loop ts path lenStack decoder"

text \<open>
  \<^verbatim>\<open>esclCapsDecoder.decode\<close>: the decoder after the loop and the returned error, which
  is always nil (\<open>None\<close>), unless the loop panics.
\<close>

definition decode :: "esclCapsDecoder \<Rightarrow> Token list \<Rightarrow> panic + (esclCapsDecoder \<times> string option)" where
  "decode decoder tokens =
     (case decode_loop tokens [] [] decoder of
        Inl p \<Rightarrow> Inl p
      | Inr decoder' \<Rightarrow> Inr (decoder', None))"

text \<open>
  The DNS-SD record that \<^verbatim>\<open>EsclService\<close> builds. Its declaration and the methods of its
  TXT record are not among the sources.
\<close>

type_synonym DnsDsTxtRecord = "(string \<times> string) list"

record DnsSdInfo =
  Type :: string
  Port :: int
  Txt :: DnsDsTxtRecord

text \<open>
  Modelled from the spec: the methods of the TXT record, an ordered list of key/value
  pairs. \<^verbatim>\<open>Add\<close> appends a pair; \<^verbatim>\<open>IfNotEmpty\<close> appends it when the value is not empty.
\<close>

definition TxtAdd :: "DnsDsTxtRecord \<Rightarrow> string \<Rightarrow> string \<Rightarrow> DnsDsTxtRecord" where
  "TxtAdd txt key val = txt @ [(key, val)]"

definition TxtIfNotEmpty :: "DnsDsTxtRecord \<Rightarrow> string \<Rightarrow> string \<Rightarrow> DnsDsTxtRecord" where
  "TxtIfNotEmpty txt key val = (if val \<noteq> [] then TxtAdd txt key val else txt)"

text \<open>
  An HTTP response as the callers read it: \<^verbatim>\<open>StatusCode\<close>, \<^verbatim>\<open>Status\<close>, \<^verbatim>\<open>Header\<close> and
  the body. The type of the body is a parameter: \<^verbatim>\<open>EsclService\<close> reads it with
  \<^verbatim>\<open>ioutil.ReadAll\<close> (an error, or the bytes, given here by their XML tokens), the proxy
  copies its bytes.
\<close>

type_synonym Header = "string \<rightharpoonup> string list"

record 'b Response =
  StatusCode :: int
  Status :: string
  RespHeader :: Header
  Body :: 'b

text \<open>
  \<^verbatim>\<open>EsclService(port, usbinfo, c)\<close>. The HTTP client \<open>c\<close> is the function from the URI to
  the result of \<^verbatim>\<open>c.Get\<close>. The result is \<open>(infos, err)\<close>; the code after the label
  \<^verbatim>\<open>ERROR\<close> returns the nil \<open>infos\<close> and the error prefixed with \<^verbatim>\<open>eSCL: \<close>.
\<close>

definition EsclService ::
  "int \<Rightarrow> UsbDeviceInfo \<Rightarrow> (string \<Rightarrow> string + (string + Token list) Response) \<Rightarrow>
   panic + (DnsSdInfo list \<times> string option)" where
  "EsclService port usbinfo c =
     (let uri = ''http://localhost/eSCL/ScannerCapabilities'';
          decoder = newEsclCapsDecoder;
          info = \<lparr>Type = ''_uscan._tcp'', Port = port, Txt = []\<rparr>
      in
      case c uri of
        Inl err \<Rightarrow> Inr ([], Some (''eSCL: '' @ err))
      | Inr resp \<Rightarrow>
          if quo (StatusCode resp) 100 \<noteq> 2 then
            Inr ([], Some (''eSCL: '' @ ''HTTP status: '' @ Status resp))
          else
            (case Body resp of
               Inl err \<Rightarrow> Inr ([], Some (''eSCL: '' @ err))
             | Inr xmlData \<Rightarrow>
                 (case decode decoder xmlData of
                    Inl p \<Rightarrow> Inl p
                  | Inr (decoder, Some err) \<Rightarrow> Inr ([], Some (''eSCL: '' @ err))
                  | Inr (decoder, None) \<Rightarrow>
                      (let err =
                             (if uuid decoder = [] \<or> version decoder = [] \<or>
                                 cs decoder = {} \<or> pdl decoder = {} \<or>
                                 \<not> (platen decoder \<and> adf decoder)
                              then Some ''invalid response'' else None);
                           txt = (if duplex decoder then TxtAdd (Txt info) ''duplex'' ''T''
                                  else TxtAdd (Txt info) ''duplex'' ''F'');
                           txt = (if platen decoder \<and> \<not> adf decoder then TxtAdd txt ''is'' ''platen''
                                  else if \<not> platen decoder \<and> adf decoder then TxtAdd txt ''is'' ''adf''
                                  else if platen decoder \<and> adf decoder then
                                    TxtAdd txt ''is'' ''platen,adf''
                                  else txt);
                           txt = TxtIfNotEmpty txt ''cs''
                                   (Join (sorted_list_of_set (cs decoder)) '','');
                           txt = TxtIfNotEmpty txt ''UUID'' (uuid decoder);
                           txt = TxtIfNotEmpty txt ''pdl''
                                   (Join (sorted_list_of_set (pdl decoder)) '','');
                           txt = TxtAdd txt ''ty'' (Product usbinfo);
                           txt = TxtAdd txt ''rs'' ''eSCL'';
                           txt = TxtIfNotEmpty txt ''vers'' (version decoder);
                           txt = TxtIfNotEmpty txt ''txtvers'' ''1''
                       in Inr ([info\<lparr>Txt := txt\<rparr>], err)))))"

text \<open>
  The validity of a decoded response in the spec's words: UUID, version, at least one
  colour mode, at least one document format, and at least one of platen and ADF.
\<close>

definition spec_valid :: "esclCapsDecoder \<Rightarrow> bool" where
  "spec_valid decoder \<longleftrightarrow>
     uuid decoder \<noteq> [] \<and> version decoder \<noteq> [] \<and> cs decoder \<noteq> {} \<and> pdl decoder \<noteq> {} \<and>
     (platen decoder \<or> adf decoder)"

text \<open>
  A capabilities document of a flatbed-only scanner, as its tokens, and a client that
  answers with it. \<open>well_nested n ts\<close> says that, with \<open>n\<close> elements open, no end element
  of \<open>ts\<close> comes without an open element.
\<close>

definition caps_platen_only :: "Token list" where
  "caps_platen_only =
     [StartElement \<lparr>Space = ''scan'', Local = ''ScannerCapabilities''\<rparr> [],
      StartElement \<lparr>Space = ''pwg'', Local = ''Version''\<rparr> [],
      CharData ''2.0'',
      EndElement \<lparr>Space = ''pwg'', Local = ''Version''\<rparr>,
      StartElement \<lparr>Space = ''scan'', Local = ''UUID''\<rparr> [],
      CharData ''u1'',
      EndElement \<lparr>Space = ''scan'', Local = ''UUID''\<rparr>,
      StartElement \<lparr>Space = ''scan'', Local = ''Platen''\<rparr> [],
      StartElement \<lparr>Space = ''scan'', Local = ''PlatenInputCaps''\<rparr> [],
      StartElement \<lparr>Space = ''scan'', Local = ''SettingProfiles''\<rparr> [],
      StartElement \<lparr>Space = ''scan'', Local = ''SettingProfile''\<rparr> [],
      StartElement \<lparr>Space = ''scan'', Local = ''ColorModes''\<rparr> [],
      StartElement \<lparr>Space = ''scan'', Local = ''ColorMode''\<rparr> [],
      CharData ''RGB24'',
      EndElement \<lparr>Space = ''scan'', Local = ''ColorMode''\<rparr>,
      EndElement \<lparr>Space = ''scan'', Local = ''ColorModes''\<rparr>,
      StartElement \<lparr>Space = ''scan'', Local = ''DocumentFormats''\<rparr> [],
      StartElement \<lparr>Space = ''pwg'', Local = ''DocumentFormat''\<rparr> [],
      CharData ''image/jpeg'',
      EndElement \<lparr>Space = ''pwg'', Local = ''DocumentFormat''\<rparr>,
      EndElement \<lparr>Space = ''scan'', Local = ''DocumentFormats''\<rparr>,
      EndElement \<lparr>Space = ''scan'', Local = ''SettingProfile''\<rparr>,
      EndElement \<lparr>Space = ''scan'', Local = ''SettingProfiles''\<rparr>,
      EndElement \<lparr>Space = ''scan'', Local = ''PlatenInputCaps''\<rparr>,
      EndElement \<lparr>Space = ''scan'', Local = ''Platen''\<rparr>,
      EndElement \<lparr>Space = ''scan'', Local = ''ScannerCapabilities''\<rparr>]"

definition client_platen_only :: "string \<Rightarrow> string + (string + Token list) Response" where
  "client_platen_only uri =
     Inr \<lparr>StatusCode = 200, Status = ''200 OK'', RespHeader = Map.empty,
          Body = Inr caps_platen_only\<rparr>"

fun well_nested :: "nat \<Rightarrow> Token list \<Rightarrow> bool" where
  "well_nested n [] = True"
| "well_nested n (StartElement name attrs # ts) = well_nested (Suc n) ts"
| "well_nested n (EndElement name # ts) = (0 < n \<and> well_nested (n - 1) ts)"
| "well_nested n (_ # ts) = well_nested n ts"

subsection \<open>The decoding loop\<close>

lemma decode_loop_well_nested:
  "well_nested (length lenStack) ts \<Longrightarrow> sorted (lenStack @ [length path]) \<Longrightarrow>
   \<exists>decoder'. decode_loop ts path lenStack decoder = Inr decoder'"
proof (induction ts path lenStack decoder rule: decode_loop.induct)
  case (1 path lenStack decoder)
  then show ?case by simp
next
  case (2 name attrs ts path lenStack decoder)
  have "sorted ((lenStack @ [length path]) @
      [length (path @ ''/'' @ Space name @ '':'' @ Local name)])"
    using "2.prems"(2) by (fastforce simp: sorted_append)
  from "2.IH" [OF refl refl _ this] "2.prems"(1) show ?case by (simp add: Let_def)
next
  case (3 name ts path lenStack decoder)
  from "3.prems" have ne: "lenStack \<noteq> []" by auto
  then obtain ls n where ls: "lenStack = ls @ [n]" by (metis rev_exhaust)
  with "3.prems" have le: "n \<le> length path" and s: "sorted (ls @ [n])"
    by (auto simp: sorted_append)
  from "3.IH" [OF ne] ls le s "3.prems" show ?case by simp
next
  case (4 t ts path lenStack decoder)
  then show ?case by (simp add: Let_def)
qed simp_all

lemma decode_well_nested:
  "well_nested 0 ts \<Longrightarrow> \<exists>decoder'. decode decoder ts = Inr (decoder', None)"
  using decode_loop_well_nested [of "[]" ts "[]" decoder] by (auto simp: decode_def)

text \<open>
  Claim C10. \<open>decode\<close> is to return nil for every input, malformed XML included. It does
  so whenever it returns (\<open>decode_well_nested\<close> for the inputs on which it does), but an
  end element that arrives with no element open, as in the document \<^verbatim>\<open></a>\<close>, makes
  the loop read \<^verbatim>\<open>lenStack[-1]\<close>: the function panics instead of returning.
\<close>

theorem decode_unmatched_end:
  "decode newEsclCapsDecoder [EndElement \<lparr>Space = [], Local = ''a''\<rparr>] = Inl IndexOutOfRange"
  by code_simp

subsection \<open>The validity check of EsclService\<close>

text \<open>
  Claim C3. \<open>EsclService\<close> is to return an error exactly when the decoded response is
  invalid, and one of platen and ADF is enough for a valid one. The flatbed-only
  document decodes to a state that is valid in this sense, and \<open>EsclService\<close> returns
  the error \<^verbatim>\<open>invalid response\<close> for it: the check tests
  \<^verbatim>\<open>!(decoder.platen && decoder.adf)\<close>.
\<close>

theorem EsclService_platen_only:
  "decode newEsclCapsDecoder caps_platen_only =
     Inr (\<lparr>uuid = ''u1'', version = ''2.0'', platen = True, adf = False, duplex = False,
           pdl = {''image/jpeg''}, cs = {''color''}\<rparr>, None) \<and>
   spec_valid \<lparr>uuid = ''u1'', version = ''2.0'', platen = True, adf = False, duplex = False,
           pdl = {''image/jpeg''}, cs = {''color''}\<rparr> \<and>
   map_sum id snd
     (EsclService 60000
        \<lparr>Vendor = 0x03F0, SerialNumber = ''CN12345'', Manufacturer = ''HP'',
         ProductName = ''OfficeJet'', Product = ''OfficeJet'', MfgAndProduct = ''HP OfficeJet''\<rparr>
        client_platen_only)
     = Inr (Some ''invalid response'')"
  by code_simp

section \<open>The HTTP proxy\<close>

subsection \<open>Headers\<close>

text \<open>
  \<^verbatim>\<open>http.Header\<close> is a map from header names to lists of values. Its methods take the
  name through \<^verbatim>\<open>textproto.CanonicalMIMEHeaderKey\<close>: a name made of token characters
  only gets its first letter and every letter after a hyphen in upper case and the other
  letters in lower case; any other name is left as it is.
\<close>

definition validHeaderFieldByte :: "char \<Rightarrow> bool" where
  "validHeaderFieldByte c \<longleftrightarrow>
     is_upper c \<or> is_lower c \<or> (CHR ''0'' \<le> c \<and> c \<le> CHR ''9'') \<or>
     c \<in> set (''!#$%&*+-.^_|~'' @ [CHR 0x27, CHR 0x60])"

fun canonical :: "bool \<Rightarrow> string \<Rightarrow> string" where
  "canonical upper [] = []"
| "canonical upper (c # rest) =
     (let c = (if upper \<and> is_lower c then to_upper c
               else if \<not> upper \<and> is_upper c then to_lower c
               else c)
      in c # canonical (c = CHR ''-'') rest)"

definition CanonicalMIMEHeaderKey :: "string \<Rightarrow> string" where
  "CanonicalMIMEHeaderKey s = (if list_all validHeaderFieldByte s then canonical True s else s)"

text \<open>\<^verbatim>\<open>Header.Get\<close>: the first value of the header, the empty string if there is none.\<close>

definition Get :: "Header \<Rightarrow> string \<Rightarrow> string" where
  "Get h key =
     (case h (CanonicalMIMEHeaderKey key) of
        None \<Rightarrow> []
      | Some [] \<Rightarrow> []
      | Some (v # vs) \<Rightarrow> v)"

definition Del :: "Header \<Rightarrow> string \<Rightarrow> Header" where
  "Del h key = h(CanonicalMIMEHeaderKey key := None)"

definition Set :: "Header \<Rightarrow> string \<Rightarrow> string \<Rightarrow> Header" where
  "Set h key val = h(CanonicalMIMEHeaderKey key \<mapsto> [val])"

text \<open>
  \<^verbatim>\<open>httpRemoveHopByHopHeaders\<close>. The Go map is changed in place; the model returns the
  new map.
\<close>

definition hop_by_hop :: "string list" where
  "hop_by_hop =
     [''Connection'', ''Keep-Alive'', ''Proxy-Authenticate'', ''Proxy-Connection'',
      ''Proxy-Authorization'', ''Te'', ''Trailer'', ''Transfer-Encoding'']"

definition httpRemoveHopByHopHeaders :: "Header \<Rightarrow> Header" where
  "httpRemoveHopByHopHeaders hdr =
     (let c = Get hdr ''Connection'';
          hdr = (if c \<noteq> [] then
                   foldl (\<lambda>hdr f. let f = TrimSpace f in if f \<noteq> [] then Del hdr f else hdr)
                     hdr (Split c CHR '','')
                 else hdr)
      in foldl Del hdr hop_by_hop)"

text \<open>\<^verbatim>\<open>httpCopyHeaders(dst, src)\<close>: every entry of \<open>src\<close> is stored in \<open>dst\<close>.\<close>

definition httpCopyHeaders :: "Header \<Rightarrow> Header \<Rightarrow> Header" where
  "httpCopyHeaders dst src = dst ++ src"

subsection \<open>Requests, the response writer and the transport\<close>

text \<open>
  The request, with the fields the handler reads or writes. \<open>LocalAddr\<close> is the value
  the request's context holds under \<^verbatim>\<open>http.LocalAddrContextKey\<close>: \<open>Some s\<close> when it is a
  \<^verbatim>\<open>net.Addr\<close> whose \<^verbatim>\<open>String()\<close> is \<open>s\<close>, \<open>None\<close> otherwise. \<open>URL_Host\<close> is the field
  \<^verbatim>\<open>Host\<close> of the URL.
\<close>

record URL =
  Scheme :: string
  URL_Host :: string
  Path :: string
  RawQuery :: string

record Request =
  Method :: string
  URL :: URL
  Header :: Header
  Host :: string
  LocalAddr :: "string option"
  ReqBody :: string

definition IsAbs :: "URL \<Rightarrow> bool" where
  "IsAbs u \<longleftrightarrow> Scheme u \<noteq> []"

text \<open>
  \<^verbatim>\<open>http.ResponseWriter\<close> is an interface. The model keeps the header map that
  \<^verbatim>\<open>w.Header()\<close> returns and what the handler does with the writer, in order: its calls
  of \<^verbatim>\<open>WriteHeader\<close> and \<^verbatim>\<open>Write\<close>, and \<^verbatim>\<open>io.Copy(w, body)\<close>. \<open>Copy b\<close> stands for one
  \<^verbatim>\<open>io.Copy\<close> that delivers the bytes \<open>b\<close> to the writer; into how many \<^verbatim>\<open>Write\<close> or
  \<^verbatim>\<open>ReadFrom\<close> calls the library turns it (none for an empty body) is not modelled.
\<close>

datatype writer_call = WriteHeader int | Write string | Copy string

record ResponseWriter =
  WHeader :: Header
  calls :: "writer_call list"

text \<open>
  \<^verbatim>\<open>HttpProxy\<close>: of its fields only the transport takes part in handling a request. A
  \<^verbatim>\<open>http.RoundTripper\<close> is the function from the request to an error or a response; the
  body of the response is given by the bytes that \<^verbatim>\<open>io.Copy\<close> reads from it.
\<close>

record HttpProxy =
  transport :: "Request \<Rightarrow> string + string Response"

text \<open>
  \<^verbatim>\<open>httpNoCache\<close> and \<^verbatim>\<open>httpError\<close>. \<open>sprintf\<close> stands for \<^verbatim>\<open>fmt.Sprintf\<close> applied to the
  format alone, as \<^verbatim>\<open>httpError\<close> is never called with further arguments.
\<close>

definition httpNoCache :: "ResponseWriter \<Rightarrow> ResponseWriter" where
  "httpNoCache w =
     (let w = w\<lparr>WHeader := Set (WHeader w) ''Cache-Control'' ''no-cache, no-store, must-revalidate''\<rparr>;
          w = w\<lparr>WHeader := Set (WHeader w) ''Pragma'' ''no-cache''\<rparr>
      in w\<lparr>WHeader := Set (WHeader w) ''Expires'' ''0''\<rparr>)"

definition httpError ::
  "(string \<Rightarrow> string) \<Rightarrow> ResponseWriter \<Rightarrow> int \<Rightarrow> string \<Rightarrow> ResponseWriter" where
  "httpError sprintf w status format =
     (let w = w\<lparr>WHeader := Set (WHeader w) ''Content-Type'' ''text/plain; charset=utf-8''\<rparr>;
          w = httpNoCache w;
          w = w\<lparr>calls := calls w @ [WriteHeader status]\<rparr>;
          msg = sprintf format @ [CHR 0x0A];
          w = w\<lparr>calls := calls w @ [Write msg]\<rparr>
      in w\<lparr>calls := calls w @ [Write [CHR 0x0A]]\<rparr>)"

definition StatusMethodNotAllowed :: int where
  "StatusMethodNotAllowed = 405"

definition StatusServiceUnavailable :: int where
  "StatusServiceUnavailable = 503"

subsection \<open>ServeHTTP\<close>

text \<open>
  The session counter \<^verbatim>\<open>httpSessionId\<close> is an \<^verbatim>\<open>int32\<close>. On entry the handler runs
  \<^verbatim>\<open>session := atomic.AddInt32(&httpSessionId, 1) - 1\<close>, and
  \<^verbatim>\<open>defer atomic.AddInt32(&httpSessionId, -1)\<close> runs when it returns. Each of the two
  is one atomic step on the counter.
\<close>

definition session_enter :: "32 word \<Rightarrow> 32 word \<times> 32 word" where
  "session_enter httpSessionId = (httpSessionId + 1 - 1, httpSessionId + 1)"

definition session_leave :: "32 word \<Rightarrow> 32 word" where
  "session_leave httpSessionId = httpSessionId + (- 1)"

text \<open>
  What one call of \<^verbatim>\<open>ServeHTTP\<close> leaves behind: the counter, the session id it logged
  with, the response writer, and the request it passed to the transport's
  \<^verbatim>\<open>RoundTrip\<close>, if it did.
\<close>

record Served =
  counter :: "32 word"
  session_id :: "32 word"
  writer :: ResponseWriter
  forwarded :: "Request option"

definition ServeHTTP ::
  "(string \<Rightarrow> string) \<Rightarrow> HttpProxy \<Rightarrow> 32 word \<Rightarrow> ResponseWriter \<Rightarrow> Request \<Rightarrow> Served" where
  "ServeHTTP sprintf proxy httpSessionId w r =
     (let (session, httpSessionId) = session_enter httpSessionId;
          (w, fwd) =
            (if Method r = ''CONNECT'' then
               (httpError sprintf w StatusMethodNotAllowed ''CONNECT not allowed'', None)
             else if Get (Header r) ''Upgrade'' \<noteq> [] then
               (httpError sprintf w StatusServiceUnavailable
                  ''Protocol upgrade is not implemented'', None)
             else if IsAbs (URL r) then
               (httpError sprintf w StatusServiceUnavailable ''Absolute URL not allowed'', None)
             else
               (let r = r\<lparr>Header := httpRemoveHopByHopHeaders (Header r)\<rparr>;
                    r = (if Host r = [] then
                           (case LocalAddr r of Some addr \<Rightarrow> r\<lparr>Host := addr\<rparr> | None \<Rightarrow> r)
                         else r);
                    r = r\<lparr>URL := (URL r)\<lparr>Scheme := ''http''\<rparr>\<rparr>;
                    r = r\<lparr>URL := (URL r)\<lparr>URL_Host := Host r\<rparr>\<rparr>
                in
                case transport proxy r of
                  Inl err \<Rightarrow> (httpError sprintf w StatusServiceUnavailable err, Some r)
                | Inr resp \<Rightarrow>
                    (let hdr = httpRemoveHopByHopHeaders (RespHeader resp);
                         w = w\<lparr>WHeader := httpCopyHeaders (WHeader w) hdr\<rparr>;
                         w = w\<lparr>calls := calls w @ [WriteHeader (StatusCode resp)]\<rparr>;
                         w = w\<lparr>calls := calls w @ [Copy (Body resp)]\<rparr>
                     in (w, Some r))))
      in \<lparr>counter = session_leave httpSessionId, session_id = session, writer = w,
          forwarded = fwd\<rparr>)"

text \<open>
  Handlers run concurrently, and the two atomic steps of different handlers interleave.
  An interleaving is a list of events; \<open>sessions es c\<close> is the list of the session ids
  given at the \<open>Enter\<close> events of \<open>es\<close>, in their order, when the counter starts at \<open>c\<close>.
\<close>

datatype event = Enter | Leave

fun sessions :: "event list \<Rightarrow> 32 word \<Rightarrow> 32 word list" where
  "sessions [] httpSessionId = []"
| "sessions (Enter # es) httpSessionId =
     fst (session_enter httpSessionId) # sessions es (snd (session_enter httpSessionId))"
| "sessions (Leave # es) httpSessionId = sessions es (session_leave httpSessionId)"


text \<open>
  Examples: a request with a \<^verbatim>\<open>Connection\<close> header that names \<^verbatim>\<open>X-Foo\<close>, a transport
  whose response carries an \<^verbatim>\<open>Upgrade\<close> header that its \<^verbatim>\<open>Connection\<close> header does not
  name, and the response writer as the server hands it to the handler. \<open>verbatim\<close> is
  \<^verbatim>\<open>fmt.Sprintf\<close> on a format without verbs, the only formats of the examples.
\<close>

definition verbatim :: "string \<Rightarrow> string" where
  "verbatim format = format"

definition request_example :: Request where
  "request_example =
     \<lparr>Method = ''POST'',
      URL = \<lparr>Scheme = [], URL_Host = [], Path = ''/ipp/print'', RawQuery = []\<rparr>,
      Header = [''Connection'' \<mapsto> [''close, X-Foo''], ''X-Foo'' \<mapsto> [''1''],
                ''Keep-Alive'' \<mapsto> [''timeout=5''], ''Content-Type'' \<mapsto> [''application/ipp'']],
      Host = ''printer.local:60000'',
      LocalAddr = Some ''127.0.0.1:60000'',
      ReqBody = []\<rparr>"

definition transport_example :: "Request \<Rightarrow> string + string Response" where
  "transport_example r =
     Inr \<lparr>StatusCode = 200, Status = ''200 OK'',
          RespHeader = [''Connection'' \<mapsto> [''X-Bar''], ''X-Bar'' \<mapsto> [''2''],
                        ''Upgrade'' \<mapsto> [''h2c''], ''Content-Type'' \<mapsto> [''application/ipp'']],
          Body = ''ok''\<rparr>"

definition new_writer :: ResponseWriter where
  "new_writer = \<lparr>WHeader = Map.empty, calls = []\<rparr>"







subsection \<open>Removing hop-by-hop headers\<close>










lemma ServeHTTP_forwarded:
  "forwarded (ServeHTTP sprintf proxy c w r) =
     (if Method r = ''CONNECT'' \<or> Get (Header r) ''Upgrade'' \<noteq> [] \<or> IsAbs (URL r) then None
      else Some (r\<lparr>Header := httpRemoveHopByHopHeaders (Header r),
                   Host := (if Host r = [] then (case LocalAddr r of Some a \<Rightarrow> a | None \<Rightarrow> [])
                            else Host r),
                   URL := (URL r)\<lparr>Scheme := ''http'',
                     URL_Host := (if Host r = [] then (case LocalAddr r of Some a \<Rightarrow> a | None \<Rightarrow> [])
                                  else Host r)\<rparr>\<rparr>))"
  by (auto simp: ServeHTTP_def Let_def session_enter_def split: sum.splits option.splits)






subsection \<open>Requests rejected up front\<close>




subsection \<open>Host and scheme of the forwarded request\<close>

text \<open>
  Claim C5, as stated: the forwarded request's \<^verbatim>\<open>Host\<close> is the value derived from the
  listener's local address, whatever the client sent. The handler only fills in a
  missing \<^verbatim>\<open>Host\<close> (\<^verbatim>\<open>if r.Host == ""\<close>): a \<^verbatim>\<open>Host\<close> sent by the client is forwarded as
  it is.
\<close>

theorem ServeHTTP_keeps_client_Host:
  "LocalAddr request_example = Some ''127.0.0.1:60000'' \<and>
   map_option Host (forwarded (ServeHTTP verbatim \<lparr>transport = transport_example\<rparr> 0
     new_writer request_example)) \<noteq> LocalAddr request_example \<and>
   map_option Host (forwarded (ServeHTTP verbatim \<lparr>transport = transport_example\<rparr> 0
     new_writer request_example)) = Some ''printer.local:60000''"
  by code_simp

text \<open>
  Claim C5, amended. In every forwarded request the URL's scheme is \<^verbatim>\<open>http\<close> and the
  URL's host equals the request's \<^verbatim>\<open>Host\<close>, which is the \<^verbatim>\<open>Host\<close> the client sent when
  that is not empty, and otherwise the listener's local address (empty when the context
  holds none).
\<close>

theorem ServeHTTP_host:
  assumes "forwarded (ServeHTTP sprintf proxy c w r) = Some fwd"
  shows "Scheme (URL fwd) = ''http'' \<and> URL_Host (URL fwd) = Host fwd \<and>
         Host fwd = (if Host r \<noteq> [] then Host r
                     else case LocalAddr r of Some addr \<Rightarrow> addr | None \<Rightarrow> [])"
  using assms by (auto simp: ServeHTTP_forwarded split: if_splits)

theorem ServeHTTP_host_witness:
  "map_option (\<lambda>fwd. (Scheme (URL fwd), URL_Host (URL fwd), Host fwd))
     (forwarded (ServeHTTP verbatim \<lparr>transport = transport_example\<rparr> 0 new_writer
        (request_example\<lparr>Host := []\<rparr>))) =
   Some (''http'', ''127.0.0.1:60000'', ''127.0.0.1:60000'')"
proof -
  let ?S = "ServeHTTP verbatim \<lparr>transport = transport_example\<rparr> 0 new_writer
        (request_example\<lparr>Host := []\<rparr>)"
  obtain fwd where f: "forwarded ?S = Some fwd"
    by (simp add: ServeHTTP_forwarded request_example_def IsAbs_def Get_def
        CanonicalMIMEHeaderKey_def validHeaderFieldByte_def is_upper_def is_lower_def)
  from ServeHTTP_host [OF f] have "Scheme (URL fwd) = ''http''"
    "URL_Host (URL fwd) = ''127.0.0.1:60000''" "Host fwd = ''127.0.0.1:60000''"
    by (simp_all add: request_example_def)
  with f show ?thesis by simp
qed

subsection \<open>Session ids\<close>

text \<open>
  Claim C8, as stated: the session ids of successively accepted requests are strictly
  increasing and never reused. The handler decrements the counter when it returns, so
  two requests handled one after the other get the same id.
\<close>

theorem session_id_reused:
  "session_id (ServeHTTP verbatim \<lparr>transport = transport_example\<rparr> 0 new_writer
     request_example) = 0 \<and>
   session_id (ServeHTTP verbatim \<lparr>transport = transport_example\<rparr>
     (counter (ServeHTTP verbatim \<lparr>transport = transport_example\<rparr> 0 new_writer
        request_example)) new_writer request_example) = 0"
  by code_simp

lemma sessions_append:
  "sessions (es @ [Enter]) c =
     sessions es c @ [c + of_nat (count_list es Enter) - of_nat (count_list es Leave)]"
  by (induction es c rule: sessions.induct)
     (simp_all add: session_enter_def session_leave_def algebra_simps)

text \<open>
  Claim C8, amended. The session id of a request is the value the counter has when the
  request is accepted, and a handler leaves the counter as it found it. In an
  interleaving of handlers the id given at an \<open>Enter\<close> is the start value of the counter
  plus the number of handlers that entered before and minus the number that left, in
  32-bit arithmetic: the number of requests in progress, when the counter starts at 0.
\<close>

theorem session_id_counts:
  "session_id (ServeHTTP sprintf proxy c w r) = c \<and>
   counter (ServeHTTP sprintf proxy c w r) = c \<and>
   sessions (es @ [Enter]) c =
     sessions es c @ [c + of_nat (count_list es Enter) - of_nat (count_list es Leave)]"
  by (simp add: sessions_append) (simp add: ServeHTTP_def session_enter_def session_leave_def
      split: prod.splits)


section \<open>IPP printer attributes\<close>

text \<open>
  The values of the \<^verbatim>\<open>goipp\<close> library: a \<^verbatim>\<open>goipp.Value\<close> is one of ten kinds, and
  \<^verbatim>\<open>Type()\<close> tells which. \<^verbatim>\<open>goipp.Values\<close> is a list of values, each with its tag; an
  attribute is a name with its values; a collection is a list of attributes. Of a
  message the decoder reads the group of printer attributes.
\<close>

type_synonym Tag = int

datatype Value =
    Void
  | Integer "32 word"
  | Boolean bool
  | String string
  | Time int
  | Resolution int int int
  | Range int int
  | TextWithLang string string
  | Binary string
  | Collection "(string \<times> (Tag \<times> Value) list) list"

datatype Type =
    TypeInvalid | TypeVoid | TypeInteger | TypeBoolean | TypeString | TypeDateTime
  | TypeResolution | TypeRange | TypeTextWithLang | TypeBinary | TypeCollection

fun ValueType :: "Value \<Rightarrow> Type" where
  "ValueType Void = TypeVoid"
| "ValueType (Integer i) = TypeInteger"
| "ValueType (Boolean b) = TypeBoolean"
| "ValueType (String s) = TypeString"
| "ValueType (Time t) = TypeDateTime"
| "ValueType (Resolution x y u) = TypeResolution"
| "ValueType (Range lower upper) = TypeRange"
| "ValueType (TextWithLang lang txt) = TypeTextWithLang"
| "ValueType (Binary b) = TypeBinary"
| "ValueType (Collection attrs) = TypeCollection"

type_synonym Values = "(Tag \<times> Value) list"

type_synonym Attribute = "string \<times> Values"

record Message =
  Code :: int
  Printer :: "Attribute list"

type_synonym ippAttrs = "string \<rightharpoonup> Values"

text \<open>
  \<^verbatim>\<open>newIppDecoder\<close>: the loop runs from the end of \<^verbatim>\<open>msg.Printer\<close> to its beginning and
  stores each attribute's values under its name.
\<close>

definition newIppDecoder :: "Message \<Rightarrow> ippAttrs" where
  "newIppDecoder msg =
     foldl (\<lambda>attrs attr. attrs(fst attr \<mapsto> snd attr)) Map.empty (rev (Printer msg))"

text \<open>
  \<^verbatim>\<open>ippAttrs.getAttr(t, name)\<close>. The test \<^verbatim>\<open>ok && v[0].V.Type() == t\<close> reads \<^verbatim>\<open>v[0]\<close>
  whenever the name is in the map, and panics if the attribute has no value. The
  result is the nil slice (\<open>[]\<close>) or a slice with at least one value.
\<close>

definition getAttr :: "ippAttrs \<Rightarrow> Type \<Rightarrow> string \<Rightarrow> panic + Value list" where
  "getAttr attrs t name =
     (case attrs name of
        None \<Rightarrow> Inr []
      | Some [] \<Rightarrow> Inl IndexOutOfRange
      | Some (v0 # vs) \<Rightarrow>
          if ValueType (snd v0) = t then Inr (map snd (v0 # vs)) else Inr [])"

text \<open>
  \<^verbatim>\<open>ippAttrs.getStrings\<close>: each value goes through the type assertion
  \<^verbatim>\<open>vals[i].(goipp.String)\<close>, which panics on a value of another kind.
\<close>

fun assert_strings :: "Value list \<Rightarrow> panic + string list" where
  "assert_strings [] = Inr []"
| "assert_strings (String s # vals) =
     (case assert_strings vals of Inl p \<Rightarrow> Inl p | Inr strs \<Rightarrow> Inr (s # strs))"
| "assert_strings (_ # vals) = Inl TypeAssertion"

definition getStrings :: "ippAttrs \<Rightarrow> string \<Rightarrow> panic + string list" where
  "getStrings attrs name =
     (case getAttr attrs TypeString name of
        Inl p \<Rightarrow> Inl p
      | Inr vals \<Rightarrow> assert_strings vals)"

definition strSingle :: "ippAttrs \<Rightarrow> string \<Rightarrow> panic + string" where
  "strSingle attrs name =
     (case getStrings attrs name of
        Inl p \<Rightarrow> Inl p
      | Inr strs \<Rightarrow> if length strs = 0 then Inr [] else Inr (hd strs))"

text \<open>
  A function that may panic returns \<open>Inl\<close> of the panic; \<open>and_then m f\<close> goes on with the
  result of \<open>m\<close> unless \<open>m\<close> panicked.
\<close>

definition and_then :: "panic + 'a \<Rightarrow> ('a \<Rightarrow> panic + 'b) \<Rightarrow> panic + 'b" where
  "and_then m f = (case m of Inl p \<Rightarrow> Inl p | Inr x \<Rightarrow> f x)"

text \<open>\<open>returns m\<close>: the call \<open>m\<close> returns, it does not panic.\<close>

definition returns :: "panic + 'a \<Rightarrow> bool" where
  "returns m = (case m of Inl p \<Rightarrow> False | Inr x \<Rightarrow> True)"

text \<open>
  \<^verbatim>\<open>strJoined\<close>, \<^verbatim>\<open>strBrackets\<close>, \<^verbatim>\<open>getBool\<close> and \<^verbatim>\<open>getDuplex\<close>. \<^verbatim>\<open>getBool\<close> asserts the
  type of the first value only, which \<^verbatim>\<open>getAttr\<close> has checked; \<^verbatim>\<open>getDuplex\<close> asserts that
  every value is a string.
\<close>

definition strJoined :: "ippAttrs \<Rightarrow> string \<Rightarrow> panic + string" where
  "strJoined attrs name = and_then (getStrings attrs name) (\<lambda>strs. Inr (Join strs '',''))"

definition strBrackets :: "ippAttrs \<Rightarrow> string \<Rightarrow> panic + string" where
  "strBrackets attrs name =
     and_then (strSingle attrs name) (\<lambda>s. Inr (if s \<noteq> [] then ''('' @ s @ '')'' else s))"

definition getBool :: "ippAttrs \<Rightarrow> string \<Rightarrow> panic + string" where
  "getBool attrs name =
     and_then (getAttr attrs TypeBoolean name)
       (\<lambda>vals. case vals of
           [] \<Rightarrow> Inr []
         | Boolean b # _ \<Rightarrow> Inr (if b then ''T'' else ''F'')
         | _ # _ \<Rightarrow> Inl TypeAssertion)"

definition getDuplex :: "ippAttrs \<Rightarrow> panic + string" where
  "getDuplex attrs =
     and_then (getAttr attrs TypeString ''sides-supported'') (\<lambda>vals.
     and_then (assert_strings vals) (\<lambda>strs.
       let (one, two) =
             foldl (\<lambda>(one, two) s.
                      if HasPrefix s ''one'' then (True, two)
                      else if HasPrefix s ''two'' then (one, True)
                      else (one, two))
                   (False, False) strs
       in Inr (if two then ''T'' else if one then ''F'' else [])))"

text \<open>
  Functions of the repository that are not among the sources. The decoder takes them
  as parameters: \<^verbatim>\<open>UUIDNormalize\<close>, the method \<^verbatim>\<open>UUID()\<close> of the USB device info, the method
  \<^verbatim>\<open>Classify()\<close> of \<^verbatim>\<open>PaperSize\<close> (given the two dimensions) and the method
  \<^verbatim>\<open>URLIfNotEmpty\<close> of the TXT record.
\<close>

record helpers =
  UUIDNormalize :: "string \<Rightarrow> string"
  usbinfo_UUID :: "UsbDeviceInfo \<Rightarrow> string"
  Classify :: "int \<Rightarrow> int \<Rightarrow> string"
  URLIfNotEmpty :: "DnsDsTxtRecord \<Rightarrow> string \<Rightarrow> string \<Rightarrow> DnsDsTxtRecord"

definition getUUID :: "helpers \<Rightarrow> ippAttrs \<Rightarrow> panic + string" where
  "getUUID h attrs =
     and_then (strSingle attrs ''printer-uuid'') (\<lambda>uuid. Inr (UUIDNormalize h uuid))"

text \<open>
  \<^verbatim>\<open>getPaperMax\<close>. Every value of \<^verbatim>\<open>media-size-supported\<close> goes through the type
  assertion \<^verbatim>\<open>collection.(goipp.Collection)\<close>. The inner loop runs from the end of the
  collection to its beginning and keeps the last attribute it sees under each of the two
  names; an attribute that was not found has no values. \<open>dim_max\<close> is the update of
  \<^verbatim>\<open>x_dim_max\<close> (or \<^verbatim>\<open>y_dim_max\<close>) from the first value of such an attribute.
\<close>

definition dim_attrs :: "(string \<times> Values) list \<Rightarrow> Values \<times> Values" where
  "dim_attrs attrs =
     foldl (\<lambda>(x_dim_attr, y_dim_attr) attr.
              if fst attr = ''x-dimension'' then (snd attr, y_dim_attr)
              else if fst attr = ''y-dimension'' then (x_dim_attr, snd attr)
              else (x_dim_attr, y_dim_attr))
           ([], []) (rev attrs)"

definition dim_max :: "Values \<Rightarrow> int \<Rightarrow> int" where
  "dim_max vals m =
     (case vals of
        [] \<Rightarrow> m
      | (tag, Integer dim) # _ \<Rightarrow> if sint dim > m then sint dim else m
      | (tag, Range lower upper) # _ \<Rightarrow> if upper > m then upper else m
      | _ # _ \<Rightarrow> m)"

fun paper_loop :: "Value list \<Rightarrow> int \<times> int \<Rightarrow> panic + int \<times> int" where
  "paper_loop [] (x_dim_max, y_dim_max) = Inr (x_dim_max, y_dim_max)"
| "paper_loop (Collection attrs # vals) (x_dim_max, y_dim_max) =
     (let (x_dim_attr, y_dim_attr) = dim_attrs attrs
      in paper_loop vals (dim_max x_dim_attr x_dim_max, dim_max y_dim_attr y_dim_max))"
| "paper_loop (_ # vals) (x_dim_max, y_dim_max) = Inl TypeAssertion"

definition getPaperMax :: "helpers \<Rightarrow> ippAttrs \<Rightarrow> panic + string" where
  "getPaperMax h attrs =
     and_then (getAttr attrs TypeCollection ''media-size-supported'') (\<lambda>vals.
       if vals = [] then Inr []
       else and_then (paper_loop vals (0, 0)) (\<lambda>(x_dim_max, y_dim_max).
         if x_dim_max = 0 \<or> y_dim_max = 0 then Inr []
         else Inr (Classify h x_dim_max y_dim_max)))"

text \<open>
  The IEEE 1284 device id: the pieces between semicolons, each cut at its first colon
  (\<^verbatim>\<open>strings.SplitN(id, ":", 2)\<close>); a piece without a colon is skipped. A key that is not
  in the Go map reads as the empty string.
\<close>

definition SplitN2 :: "string \<Rightarrow> char \<Rightarrow> string list" where
  "SplitN2 s sep =
     (if sep \<in> set s then [takeWhile (\<lambda>c. c \<noteq> sep) s, drop 1 (dropWhile (\<lambda>c. c \<noteq> sep) s)]
      else [s])"

definition parse_devid :: "string \<Rightarrow> string \<Rightarrow> string" where
  "parse_devid s =
     (let devid =
            foldl (\<lambda>devid id.
                     case SplitN2 id CHR '':'' of
                       [k, v] \<Rightarrow> devid(k \<mapsto> v)
                     | _ \<Rightarrow> devid)
                  Map.empty (Split s CHR '';'')
      in (\<lambda>key. case devid key of None \<Rightarrow> [] | Some v \<Rightarrow> v))"

record IppPrinterInfo =
  DNSSdName :: string
  UUID :: string
  AdminURL :: string
  IconURL :: string
  IppSvcIndex :: int

record DNSSdSvcInfo = DnsSdInfo +
  SubTypes :: "string list"

text \<open>
  \<^verbatim>\<open>ippAttrs.decode(usbinfo)\<close>, in two parts. \<open>decode_DNSSdName\<close> is the beginning of the
  function: the construction of \<^verbatim>\<open>ippinfo\<close> with \<^verbatim>\<open>AdminURL\<close> and \<^verbatim>\<open>IconURL\<close>, and the
  chain that gives \<^verbatim>\<open>ippinfo.DNSSdName\<close>. \<open>ippAttrs_decode\<close> is the whole function: it goes
  on with the UUID, the device id and the TXT record, and returns \<open>(ippinfo, svc)\<close>.
  \<^verbatim>\<open>IfNotEmpty\<close> of the TXT record tells whether it has added the pair, which is when
  the value is not empty.
\<close>

definition decode_DNSSdName :: "ippAttrs \<Rightarrow> UsbDeviceInfo \<Rightarrow> panic + IppPrinterInfo" where
  "decode_DNSSdName attrs usbinfo =
     and_then (strSingle attrs ''printer-more-info'') (\<lambda>admin.
     and_then (strSingle attrs ''printer-icons'') (\<lambda>icon.
     let ippinfo = \<lparr>DNSSdName = [], UUID = [], AdminURL = admin, IconURL = icon,
                    IppSvcIndex = 0\<rparr> in
     and_then (strSingle attrs ''printer-dns-sd-name'') (\<lambda>name.
     let ippinfo = ippinfo\<lparr>DNSSdName := name\<rparr> in
     and_then (if DNSSdName ippinfo = [] then
                 and_then (strSingle attrs ''printer-info'')
                   (\<lambda>name. Inr (ippinfo\<lparr>DNSSdName := name\<rparr>))
               else Inr ippinfo) (\<lambda>ippinfo.
     and_then (if DNSSdName ippinfo = [] then
                 and_then (strSingle attrs ''printer-make-and-model'')
                   (\<lambda>name. Inr (ippinfo\<lparr>DNSSdName := name\<rparr>))
               else Inr ippinfo) (\<lambda>ippinfo.
     if DNSSdName ippinfo = [] then Inr (ippinfo\<lparr>DNSSdName := MfgAndProduct usbinfo\<rparr>)
     else Inr ippinfo)))))"

definition ippAttrs_decode ::
  "helpers \<Rightarrow> ippAttrs \<Rightarrow> UsbDeviceInfo \<Rightarrow> panic + IppPrinterInfo \<times> DNSSdSvcInfo" where
  "ippAttrs_decode h attrs usbinfo =
     (let svc = \<lparr>Type = ''_ipp._tcp'', Port = 0, Txt = [],
                 SubTypes = [''_universal._sub._ipp._tcp'']\<rparr> in
      and_then (decode_DNSSdName attrs usbinfo) (\<lambda>ippinfo.
      and_then (getUUID h attrs) (\<lambda>uuid.
      let ippinfo = ippinfo\<lparr>UUID := uuid\<rparr>;
          ippinfo = (if UUID ippinfo = [] then ippinfo\<lparr>UUID := usbinfo_UUID h usbinfo\<rparr>
                     else ippinfo) in
      and_then (strSingle attrs ''printer-device-id'') (\<lambda>id.
      let devid = parse_devid id;
          txt = TxtAdd (Txt svc) ''air'' ''none'' in
      and_then (strSingle attrs ''mopria-certified'') (\<lambda>mopria.
      let txt = TxtIfNotEmpty txt ''mopria-certified'' mopria;
          txt = TxtAdd txt ''rp'' ''ipp/print'';
          txt = TxtAdd txt ''priority'' ''50'' in
      and_then (strJoined attrs ''printer-kind'') (\<lambda>kind.
      let txt = TxtIfNotEmpty txt ''kind'' kind in
      and_then (getPaperMax h attrs) (\<lambda>paperMax.
      let txt = TxtIfNotEmpty txt ''PaperMax'' paperMax in
      and_then (strJoined attrs ''urf-supported'') (\<lambda>urf.
      let txt = (if urf \<noteq> [] then TxtIfNotEmpty txt ''URF'' urf
                 else TxtIfNotEmpty (TxtIfNotEmpty txt ''URF'' urf) ''URF'' (devid ''URF''));
          txt = TxtIfNotEmpty txt ''UUID'' (UUID ippinfo) in
      and_then (getBool attrs ''color-supported'') (\<lambda>color.
      let txt = TxtIfNotEmpty txt ''Color'' color in
      and_then (getDuplex attrs) (\<lambda>duplex.
      let txt = TxtIfNotEmpty txt ''Duplex'' duplex in
      and_then (strSingle attrs ''printer-location'') (\<lambda>location.
      let txt = TxtAdd txt ''note'' location;
          txt = TxtAdd txt ''qtotal'' ''1'';
          txt = TxtIfNotEmpty txt ''usb_MDL'' (devid ''MDL'');
          txt = TxtIfNotEmpty txt ''usb_MFG'' (devid ''MFG'');
          txt = TxtIfNotEmpty txt ''usb_CMD'' (devid ''CMD'') in
      and_then (strSingle attrs ''printer-make-and-model'') (\<lambda>ty.
      let txt = TxtIfNotEmpty txt ''ty'' ty in
      and_then (strBrackets attrs ''printer-make-and-model'') (\<lambda>product.
      let txt = TxtIfNotEmpty txt ''product'' product in
      and_then (strJoined attrs ''document-format-supported'') (\<lambda>pdl.
      let txt = TxtIfNotEmpty txt ''pdl'' pdl;
          txt = TxtAdd txt ''txtvers'' ''1'';
          txt = URLIfNotEmpty h txt ''adminurl'' (AdminURL ippinfo)
      in Inr (ippinfo, svc\<lparr>Txt := txt\<rparr>)))))))))))))))"

text \<open>
  The names of the attributes that \<open>ippAttrs_decode\<close> looks up.
\<close>

definition decode_lookups :: "string list" where
  "decode_lookups =
     [''printer-more-info'', ''printer-icons'', ''printer-dns-sd-name'', ''printer-info'',
      ''printer-make-and-model'', ''printer-uuid'', ''printer-device-id'', ''mopria-certified'',
      ''printer-kind'', ''media-size-supported'', ''urf-supported'', ''color-supported'',
      ''sides-supported'', ''printer-location'', ''document-format-supported'']"

subsection \<open>The earlier revision of the decoder (ipp.go)\<close>

text \<open>
  src/ipp.go holds an earlier revision of the same decoder. Its lookups take a list of
  names, for fallback: \<^verbatim>\<open>getAttr\<close> returns the values of the first name that is in the
  map with a first value of the requested type. \<^verbatim>\<open>getStrings\<close> returns
  \<^verbatim>\<open>make([]string, len(vals))\<close>, which is never nil, so the test \<^verbatim>\<open>strings == nil\<close> of
  \<^verbatim>\<open>getString\<close> never holds and \<^verbatim>\<open>strings[0]\<close> panics when no name was found. The
  functions of this revision have the names of the later one; they are written here with
  the suffix \<open>0\<close>, but for \<^verbatim>\<open>getString\<close> and \<^verbatim>\<open>Decode\<close>.
\<close>

fun getAttr0 :: "ippAttrs \<Rightarrow> Type \<Rightarrow> string list \<Rightarrow> panic + Value list" where
  "getAttr0 attrs t [] = Inr []"
| "getAttr0 attrs t (name # names) =
     (case attrs name of
        None \<Rightarrow> getAttr0 attrs t names
      | Some [] \<Rightarrow> Inl IndexOutOfRange
      | Some (v0 # vs) \<Rightarrow>
          if ValueType (snd v0) = t then Inr (map snd (v0 # vs)) else getAttr0 attrs t names)"

definition getStrings0 :: "ippAttrs \<Rightarrow> string list \<Rightarrow> panic + string list" where
  "getStrings0 attrs names = and_then (getAttr0 attrs TypeString names) assert_strings"

definition getString :: "ippAttrs \<Rightarrow> string list \<Rightarrow> panic + string" where
  "getString attrs names =
     and_then (getStrings0 attrs names)
       (\<lambda>strs. case strs of [] \<Rightarrow> Inl IndexOutOfRange | s # _ \<Rightarrow> Inr s)"

definition getBool0 :: "ippAttrs \<Rightarrow> string list \<Rightarrow> panic + string" where
  "getBool0 attrs names =
     and_then (getAttr0 attrs TypeBoolean names)
       (\<lambda>vals. case vals of
           [] \<Rightarrow> Inr []
         | Boolean b # _ \<Rightarrow> Inr (if b then ''T'' else ''F'')
         | _ # _ \<Rightarrow> Inl TypeAssertion)"

text \<open>\<^verbatim>\<open>strings.TrimPrefix(s, prefix)\<close>.\<close>

definition TrimPrefix :: "string \<Rightarrow> string \<Rightarrow> string" where
  "TrimPrefix s p = (if HasPrefix s p then drop (length p) s else s)"

text \<open>
  Modelled from the spec: the methods \<^verbatim>\<open>AddNotEmpty\<close> and \<^verbatim>\<open>JoinNotEmpty\<close> of the TXT
  record of this revision, which are not among the sources: a pair is added when its
  value is not empty, and a list of strings is joined with commas.
\<close>

definition TxtAddNotEmpty :: "DnsDsTxtRecord \<Rightarrow> string \<Rightarrow> string \<Rightarrow> DnsDsTxtRecord" where
  "TxtAddNotEmpty txt key val = (if val \<noteq> [] then TxtAdd txt key val else txt)"

definition TxtJoinNotEmpty :: "DnsDsTxtRecord \<Rightarrow> string \<Rightarrow> string list \<Rightarrow> DnsDsTxtRecord" where
  "TxtJoinNotEmpty txt key vals = TxtAddNotEmpty txt key (Join vals '','')"

text \<open>\<^verbatim>\<open>ippAttrs.Decode()\<close> of src/ipp.go; it returns \<open>(dnssd_name, info)\<close>.\<close>

definition Decode :: "ippAttrs \<Rightarrow> panic + string \<times> DnsSdInfo" where
  "Decode attrs =
     (let info = \<lparr>Type = ''_ipp._tcp'', Port = 0, Txt = []\<rparr> in
      and_then (getString attrs
                  [''printer-dns-sd-name'', ''printer-info'', ''printer-make-and-model''])
        (\<lambda>dnssd_name.
      and_then (getString attrs [''printer-device-id'']) (\<lambda>id.
      let devid = parse_devid id in
      and_then (getString attrs [''printer-location'']) (\<lambda>location.
      let txt = TxtAdd (Txt info) ''note'' location in
      and_then (getStrings0 attrs [''document-format-supported'']) (\<lambda>formats.
      let txt = TxtJoinNotEmpty txt ''pdl'' formats;
          txt = TxtAdd txt ''rp'' ''ipp/print'';
          txt = TxtAddNotEmpty txt ''URF'' (devid ''URF'') in
      and_then (getString attrs [''printer-uuid'']) (\<lambda>uuid.
      let txt = TxtAddNotEmpty txt ''UUID'' (TrimPrefix uuid ''urn:uuid:'');
          txt = TxtAdd txt ''txtvers'' ''1'' in
      and_then (getString attrs [''printer-make-and-model'']) (\<lambda>ty.
      let txt = TxtAddNotEmpty txt ''ty'' ty in
      and_then (getBool0 attrs [''color-supported'']) (\<lambda>color.
      let txt = TxtAddNotEmpty txt ''Color'' color
      in Inr (dnssd_name, info\<lparr>Txt := txt\<rparr>)))))))))"

text \<open>
  For the statement of the name chain: the value of a string attribute is its first
  value, and the empty string when the attribute is absent or its first value is not a
  string; \<open>first_non_empty\<close> is the first non-empty string of a list, empty if there is
  none. \<open>one_type attrs name\<close> holds when the attribute, if present, has a value and all
  its values are of the type of the first.
\<close>

definition string_value :: "ippAttrs \<Rightarrow> string \<Rightarrow> string" where
  "string_value attrs name =
     (case attrs name of
        Some ((tag, String s) # vs) \<Rightarrow> s
      | _ \<Rightarrow> [])"

definition first_non_empty :: "string list \<Rightarrow> string" where
  "first_non_empty strs = (case filter (\<lambda>s. s \<noteq> []) strs of [] \<Rightarrow> [] | s # _ \<Rightarrow> s)"

text \<open>
  \<open>has_string attrs name\<close>: the attribute is in the map and its first value is a string.
\<close>

definition has_string :: "ippAttrs \<Rightarrow> string \<Rightarrow> bool" where
  "has_string attrs name =
     (case attrs name of Some (v0 # vs) \<Rightarrow> ValueType (snd v0) = TypeString | _ \<Rightarrow> False)"

definition one_type :: "ippAttrs \<Rightarrow> string \<Rightarrow> bool" where
  "one_type attrs name \<longleftrightarrow>
     (case attrs name of
        None \<Rightarrow> True
      | Some [] \<Rightarrow> False
      | Some (v0 # vs) \<Rightarrow> list_all (\<lambda>v. ValueType (snd v) = ValueType (snd v0)) vs)"

text \<open>
  The names of the attributes that \<open>Decode\<close> looks up, and those among them that it
  reads with \<open>getString\<close> alone, without a fallback to another name.
\<close>

definition Decode_lookups :: "string list" where
  "Decode_lookups =
     [''printer-dns-sd-name'', ''printer-info'', ''printer-make-and-model'',
      ''printer-device-id'', ''printer-location'', ''document-format-supported'',
      ''printer-uuid'', ''color-supported'']"

definition Decode_strings :: "string list" where
  "Decode_strings =
     [''printer-device-id'', ''printer-location'', ''printer-uuid'', ''printer-make-and-model'']"

text \<open>
  Example messages. In the first, \<^verbatim>\<open>printer-dns-sd-name\<close> is present and empty,
  \<^verbatim>\<open>printer-info\<close> occurs twice and \<^verbatim>\<open>color-supported\<close> is a boolean. The second has
  also the other string attributes that \<open>Decode\<close> of src/ipp.go looks up. \<open>helpers_example\<close>
  gives simple functions for the parameters of \<open>ippAttrs_decode\<close>.
\<close>

definition message_example :: Message where
  "message_example =
     \<lparr>Code = 0,
      Printer =
        [(''printer-dns-sd-name'', [(0x42, String [])]),
         (''printer-info'', [(0x41, String ''Office printer'')]),
         (''printer-info'', [(0x41, String ''second'')]),
         (''color-supported'', [(0x22, Boolean True)]),
         (''printer-make-and-model'', [(0x41, String ''ACME 1000'')])]\<rparr>"

definition message_full :: Message where
  "message_full =
     \<lparr>Code = 0,
      Printer =
        [(''printer-dns-sd-name'', [(0x42, String [])]),
         (''printer-info'', [(0x41, String ''Office printer'')]),
         (''printer-make-and-model'', [(0x41, String ''ACME 1000'')]),
         (''printer-device-id'', [(0x41, String ''MFG:ACME;MDL:1000;'')]),
         (''printer-location'', [(0x41, String ''Room 1'')]),
         (''printer-uuid'', [(0x45, String ''urn:uuid:01234567-89ab-cdef-0123-456789abcdef'')])]\<rparr>"

definition usbinfo_example :: UsbDeviceInfo where
  "usbinfo_example =
     \<lparr>Vendor = 0x03F0, SerialNumber = ''CN12345'', Manufacturer = ''HP'',
      ProductName = ''OfficeJet'', Product = ''OfficeJet'', MfgAndProduct = ''HP OfficeJet''\<rparr>"

definition helpers_example :: helpers where
  "helpers_example =
     \<lparr>UUIDNormalize = (\<lambda>uuid. TrimPrefix uuid ''urn:uuid:''),
      usbinfo_UUID = SerialNumber,
      Classify = (\<lambda>x y. ''legal-A4''),
      URLIfNotEmpty = TxtIfNotEmpty\<rparr>"

subsection \<open>Duplicate attributes and type mismatch\<close>






lemma getAttr_no_value: "attrs name = Some [] \<Longrightarrow> getAttr attrs t name = Inl IndexOutOfRange"
  by (simp add: getAttr_def)




subsection \<open>The DNS-SD name\<close>

lemma and_then_Inr: "and_then m f = Inr y \<longleftrightarrow> (\<exists>x. m = Inr x \<and> f x = Inr y)"
  by (cases m) (simp_all add: and_then_def)

lemma assert_strings_hd:
  "assert_strings (String s # vals) = Inr strs \<Longrightarrow> strs \<noteq> [] \<and> hd strs = s"
  by (auto split: sum.splits)

lemma strSingle_Inr:
  assumes "strSingle attrs name = Inr s"
  shows "s = string_value attrs name"
proof (cases "attrs name")
  case None
  with assms show ?thesis
    by (simp add: strSingle_def getStrings_def getAttr_def string_value_def)
next
  case (Some vals)
  show ?thesis
  proof (cases vals)
    case Nil
    with Some assms show ?thesis by (simp add: strSingle_def getStrings_def getAttr_def)
  next
    case (Cons v0 vs)
    obtain tag v where v0: "v0 = (tag, v)" by (cases v0)
    show ?thesis
    proof (cases "ValueType v = TypeString")
      case False
      then have "string_value attrs name = []"
        using Some Cons v0 by (cases v) (simp_all add: string_value_def)
      with False Some Cons v0 assms show ?thesis
        by (simp add: strSingle_def getStrings_def getAttr_def)
    next
      case True
      then obtain s' where s': "v = String s'" by (cases v) simp_all
      from assms Some Cons v0 s' obtain strs where
        a: "assert_strings (String s' # map snd vs) = Inr strs"
        and r: "s = (if length strs = 0 then [] else hd strs)"
        by (auto simp: strSingle_def getStrings_def getAttr_def split: sum.splits)
      from assert_strings_hd [OF a] r have "s = s'" by simp
      with Some Cons v0 s' show ?thesis by (simp add: string_value_def)
    qed
  qed
qed

lemma decode_DNSSdName_Inr:
  assumes "decode_DNSSdName attrs usbinfo = Inr ippinfo"
  shows "DNSSdName ippinfo =
     first_non_empty
       [string_value attrs ''printer-dns-sd-name'', string_value attrs ''printer-info'',
        string_value attrs ''printer-make-and-model'', MfgAndProduct usbinfo]"
  using assms
  by (auto simp: decode_DNSSdName_def and_then_Inr Let_def first_non_empty_def
      dest!: strSingle_Inr split: if_splits)

lemma ippAttrs_decode_Inr:
  assumes "ippAttrs_decode h attrs usbinfo = Inr (ippinfo, svc)"
  shows "\<exists>i. decode_DNSSdName attrs usbinfo = Inr i \<and> DNSSdName ippinfo = DNSSdName i"
  using assms
  by (auto simp: ippAttrs_decode_def and_then_Inr Let_def split: if_splits)


lemma returns_Inr: "returns (Inr x)"
  by (simp add: returns_def)

lemma returns_iff: "returns m \<longleftrightarrow> (\<exists>x. m = Inr x)"
  by (cases m) (simp_all add: returns_def)

lemma returns_and_then: "returns m \<Longrightarrow> (\<And>x. returns (f x)) \<Longrightarrow> returns (and_then m f)"
  by (cases m) (simp_all add: returns_def and_then_def)

lemma getAttr_one_type:
  assumes "one_type attrs name"
  shows "\<exists>vals. getAttr attrs t name = Inr vals \<and> list_all (\<lambda>v. ValueType v = t) vals"
proof (cases "attrs name")
  case None
  then show ?thesis by (simp add: getAttr_def)
next
  case (Some vals)
  with assms show ?thesis
    by (cases vals) (auto simp: getAttr_def one_type_def list_all_iff)
qed

lemma assert_strings_returns:
  "list_all (\<lambda>v. ValueType v = TypeString) vals \<Longrightarrow> returns (assert_strings vals)"
proof (induction vals)
  case Nil
  then show ?case by (simp add: returns_def)
next
  case (Cons v vals)
  then show ?case by (cases v) (auto simp: returns_iff)
qed

lemma getStrings_returns: "one_type attrs name \<Longrightarrow> returns (getStrings attrs name)"
  using getAttr_one_type [of attrs name TypeString]
  by (auto simp: getStrings_def assert_strings_returns)

lemma strSingle_returns: "one_type attrs name \<Longrightarrow> returns (strSingle attrs name)"
  using getStrings_returns [of attrs name]
  by (auto simp: strSingle_def returns_iff)

lemma strJoined_returns: "one_type attrs name \<Longrightarrow> returns (strJoined attrs name)"
  by (simp add: strJoined_def returns_and_then getStrings_returns returns_Inr)

lemma strBrackets_returns: "one_type attrs name \<Longrightarrow> returns (strBrackets attrs name)"
  by (simp add: strBrackets_def returns_and_then strSingle_returns returns_Inr)

lemma getUUID_returns: "one_type attrs ''printer-uuid'' \<Longrightarrow> returns (getUUID h attrs)"
  by (simp add: getUUID_def returns_and_then strSingle_returns returns_Inr)

lemma getBool_returns: "one_type attrs name \<Longrightarrow> returns (getBool attrs name)"
proof -
  assume "one_type attrs name"
  from getAttr_one_type [OF this, of TypeBoolean] obtain vals where
    v: "getAttr attrs TypeBoolean name = Inr vals" "list_all (\<lambda>v. ValueType v = TypeBoolean) vals"
    by blast
  show ?thesis
  proof (cases vals)
    case Nil
    with v show ?thesis by (simp add: getBool_def and_then_def returns_def)
  next
    case (Cons x xs)
    with v show ?thesis by (cases x) (simp_all add: getBool_def and_then_def returns_def)
  qed
qed

lemma getDuplex_returns: "one_type attrs ''sides-supported'' \<Longrightarrow> returns (getDuplex attrs)"
proof -
  assume "one_type attrs ''sides-supported''"
  from getAttr_one_type [OF this, of TypeString] obtain vals where
    v: "getAttr attrs TypeString ''sides-supported'' = Inr vals"
      "list_all (\<lambda>v. ValueType v = TypeString) vals"
    by blast
  from assert_strings_returns [OF v(2)] obtain strs where "assert_strings vals = Inr strs"
    by (auto simp: returns_iff)
  with v show ?thesis
    by (simp add: getDuplex_def and_then_def returns_def split: prod.splits)
qed

lemma paper_loop_returns:
  "list_all (\<lambda>v. ValueType v = TypeCollection) vals \<Longrightarrow> returns (paper_loop vals acc)"
proof (induction vals acc rule: paper_loop.induct)
  case (1 x_dim_max y_dim_max)
  then show ?case by (simp add: returns_def)
next
  case (2 attrs vals x_dim_max y_dim_max)
  then show ?case by (simp split: prod.splits)
qed simp_all

lemma getPaperMax_returns:
  "one_type attrs ''media-size-supported'' \<Longrightarrow> returns (getPaperMax h attrs)"
proof -
  assume "one_type attrs ''media-size-supported''"
  from getAttr_one_type [OF this, of TypeCollection] obtain vals where
    v: "getAttr attrs TypeCollection ''media-size-supported'' = Inr vals"
      "list_all (\<lambda>v. ValueType v = TypeCollection) vals"
    by blast
  from paper_loop_returns [OF v(2), of "(0, 0)"] obtain r where
    "paper_loop vals (0, 0) = Inr r" by (auto simp: returns_iff)
  with v show ?thesis
    by (simp add: getPaperMax_def and_then_def returns_def split: prod.splits)
qed

lemma decode_DNSSdName_returns:
  assumes "list_all (one_type attrs) decode_lookups"
  shows "returns (decode_DNSSdName attrs usbinfo)"
proof -
  from assms have "returns (strSingle attrs ''printer-more-info'')"
    "returns (strSingle attrs ''printer-icons'')"
    "returns (strSingle attrs ''printer-dns-sd-name'')"
    "returns (strSingle attrs ''printer-info'')"
    "returns (strSingle attrs ''printer-make-and-model'')"
    by (simp_all add: decode_lookups_def strSingle_returns)
  then show ?thesis
    by (auto simp: decode_DNSSdName_def Let_def returns_Inr intro!: returns_and_then)
qed

lemma ippAttrs_decode_returns:
  assumes "list_all (one_type attrs) decode_lookups"
  shows "returns (ippAttrs_decode h attrs usbinfo)"
proof -
  note l = assms [unfolded decode_lookups_def, simplified]
  show ?thesis
    unfolding ippAttrs_decode_def Let_def
    by (intro returns_and_then decode_DNSSdName_returns [OF assms] getUUID_returns
        strSingle_returns strJoined_returns strBrackets_returns getBool_returns
        getDuplex_returns getPaperMax_returns returns_Inr) (simp_all add: l)
qed


lemma getAttr0_Inr:
  "getAttr0 attrs TypeString names = Inr vals \<Longrightarrow> vals \<noteq> [] \<Longrightarrow>
   \<exists>name v0 vs. find (has_string attrs) names = Some name \<and>
     attrs name = Some (v0 # vs) \<and> ValueType (snd v0) = TypeString \<and> vals = map snd (v0 # vs)"
proof (induction names)
  case Nil
  then show ?case by simp
next
  case (Cons name names)
  show ?case
  proof (cases "has_string attrs name")
    case True
    with Cons.prems show ?thesis
      by (auto simp: has_string_def split: option.splits list.splits)
  next
    case False
    with Cons.prems have "getAttr0 attrs TypeString names = Inr vals"
      by (auto simp: has_string_def split: option.splits list.splits if_splits)
    from Cons.IH [OF this Cons.prems(2)] False show ?thesis by simp
  qed
qed

lemma getString_Inr:
  assumes "getString attrs names = Inr s"
  shows "\<exists>name. find (has_string attrs) names = Some name \<and> s = string_value attrs name"
proof -
  from assms obtain strs where g0: "getStrings0 attrs names = Inr strs"
    and c: "(case strs of [] \<Rightarrow> Inl IndexOutOfRange | s' # _ \<Rightarrow> Inr s') = Inr s"
    by (auto simp: getString_def and_then_Inr)
  from c have s: "strs \<noteq> []" "s = hd strs" by (cases strs; simp)+
  from g0 obtain vals where g: "getAttr0 attrs TypeString names = Inr vals"
    and a: "assert_strings vals = Inr strs"
    by (auto simp: getStrings0_def and_then_Inr)
  from a s(1) have "vals \<noteq> []" by auto
  from getAttr0_Inr [OF g this] obtain name v0 vs where
    n: "find (has_string attrs) names = Some name" "attrs name = Some (v0 # vs)"
      "ValueType (snd v0) = TypeString" "vals = map snd (v0 # vs)"
    by blast
  obtain tag v where v0: "v0 = (tag, v)" by (cases v0)
  with n(3) obtain s' where s': "v = String s'" by (cases v) simp_all
  from a n(4) v0 s' have "assert_strings (String s' # map snd vs) = Inr strs" by simp
  from assert_strings_hd [OF this] s(2) have "s = s'" by simp
  with n(1,2) v0 s' show ?thesis by (simp add: string_value_def)
qed

lemma Decode_Inr:
  "Decode attrs = Inr (dnssd_name, info) \<Longrightarrow>
   getString attrs [''printer-dns-sd-name'', ''printer-info'', ''printer-make-and-model'']
     = Inr dnssd_name"
  by (auto simp: Decode_def and_then_Inr Let_def)

lemma getAttr0_one_type:
  "list_all (one_type attrs) names \<Longrightarrow>
   \<exists>vals. getAttr0 attrs t names = Inr vals \<and> list_all (\<lambda>v. ValueType v = t) vals \<and>
     (t = TypeString \<and> list_ex (has_string attrs) names \<longrightarrow> vals \<noteq> [])"
proof (induction names)
  case Nil
  then show ?case by simp
next
  case (Cons name names)
  show ?case
  proof (cases "attrs name")
    case None
    with Cons show ?thesis by (simp add: has_string_def)
  next
    case (Some vals)
    with Cons show ?thesis
      by (cases vals) (auto simp: one_type_def has_string_def list_all_iff)
  qed
qed

lemma assert_strings_length:
  "assert_strings vals = Inr strs \<Longrightarrow> length strs = length vals"
proof (induction vals arbitrary: strs)
  case Nil
  then show ?case by simp
next
  case (Cons v vals)
  then show ?case by (cases v) (auto split: sum.splits)
qed

lemma getStrings0_returns:
  "list_all (one_type attrs) names \<Longrightarrow> returns (getStrings0 attrs names)"
  using getAttr0_one_type [of attrs names TypeString]
  by (auto simp: getStrings0_def and_then_def assert_strings_returns)

lemma getString_returns:
  assumes "list_all (one_type attrs) names" "list_ex (has_string attrs) names"
  shows "returns (getString attrs names)"
proof -
  from getAttr0_one_type [OF assms(1), of TypeString] assms(2) obtain vals where
    v: "getAttr0 attrs TypeString names = Inr vals"
      "list_all (\<lambda>v. ValueType v = TypeString) vals" "vals \<noteq> []"
    by auto
  from assert_strings_returns [OF v(2)] obtain strs where s: "assert_strings vals = Inr strs"
    by (auto simp: returns_iff)
  from assert_strings_length [OF s] v(3) obtain s0 rest where "strs = s0 # rest"
    by (cases strs) auto
  with v(1) s show ?thesis
    by (simp add: getString_def getStrings0_def and_then_def returns_def)
qed

lemma getBool0_returns:
  assumes "list_all (one_type attrs) names"
  shows "returns (getBool0 attrs names)"
proof -
  from getAttr0_one_type [OF assms, of TypeBoolean] obtain vals where
    v: "getAttr0 attrs TypeBoolean names = Inr vals"
      "list_all (\<lambda>v. ValueType v = TypeBoolean) vals"
    by auto
  show ?thesis
  proof (cases vals)
    case Nil
    with v show ?thesis by (simp add: getBool0_def and_then_def returns_def)
  next
    case (Cons v0 rest)
    with v(2) obtain b where "v0 = Boolean b" by (cases v0) simp_all
    with v(1) Cons show ?thesis by (simp add: getBool0_def and_then_def returns_def)
  qed
qed

lemma Decode_returns:
  assumes "list_all (one_type attrs) Decode_lookups"
    and "list_all (has_string attrs) Decode_strings"
  shows "returns (Decode attrs)"
proof -
  from assms have o: "one_type attrs ''printer-dns-sd-name''" "one_type attrs ''printer-info''"
    "one_type attrs ''printer-make-and-model''" "one_type attrs ''printer-device-id''"
    "one_type attrs ''printer-location''" "one_type attrs ''document-format-supported''"
    "one_type attrs ''printer-uuid''" "one_type attrs ''color-supported''"
    and s: "has_string attrs ''printer-device-id''" "has_string attrs ''printer-location''"
    "has_string attrs ''printer-uuid''" "has_string attrs ''printer-make-and-model''"
    by (simp_all add: Decode_lookups_def Decode_strings_def)
  show ?thesis
    unfolding Decode_def Let_def
    by (intro returns_and_then getString_returns getStrings0_returns getBool0_returns
        returns_Inr) (simp_all add: o s)
qed

text \<open>
  Both functions panic on some attribute sets that a device can send: \<open>decode\<close> when a
  string attribute holds a value of another kind after its first value, \<open>Decode\<close> of the
  earlier revision when an attribute it reads with \<open>getString\<close> is absent.
\<close>

lemma ippAttrs_decode_panics:
  "ippAttrs_decode h [''printer-info'' \<mapsto> [(0x41, String ''a''), (0x21, Integer 1)]] usbinfo
     = Inl TypeAssertion"
  by (simp add: ippAttrs_decode_def decode_DNSSdName_def and_then_def strSingle_def
      getStrings_def getAttr_def)

lemma Decode_panics: "Decode Map.empty = Inl IndexOutOfRange"
  by (simp add: Decode_def getString_def getStrings0_def and_then_def)

text \<open>
  Claim C7, as stated, names two functions: \<open>decode\<close> of the current decoder and \<open>Decode\<close>
  of the earlier revision (ipp.go). The earlier \<open>Decode\<close> takes no USB device info and asks
  \<open>getString\<close> for the first of the three attributes whose first value is a string, without
  looking whether that string is empty. On the attributes below \<^verbatim>\<open>printer-dns-sd-name\<close> is
  the empty string and \<^verbatim>\<open>printer-info\<close> is \<^verbatim>\<open>Office printer\<close>: \<open>Decode\<close> returns the empty
  name, where the first non-empty value of the chain is \<^verbatim>\<open>Office printer\<close>.
\<close>

theorem Decode_empty_name:
  "map_sum id fst (Decode (newIppDecoder message_full)) = Inr [] \<and>
   first_non_empty
     [string_value (newIppDecoder message_full) ''printer-dns-sd-name'',
      string_value (newIppDecoder message_full) ''printer-info'',
      string_value (newIppDecoder message_full) ''printer-make-and-model'',
      MfgAndProduct usbinfo_example] = ''Office printer''"
  by code_simp

text \<open>
  Claim C7, amended. For \<open>decode\<close> of the current decoder, on every attribute set and USB
  device info on which it returns, the DNS-SD name of the result is the first non-empty
  value in the chain: first string value of \<^verbatim>\<open>printer-dns-sd-name\<close>, of \<^verbatim>\<open>printer-info\<close>, of
  \<^verbatim>\<open>printer-make-and-model\<close>, then the manufacturer-and-product string of the USB device
  info (the empty string when all four are empty). It returns whenever each attribute it
  looks up, if present, holds values of a single type. For \<open>Decode\<close> of the earlier revision,
  whenever it returns, the name is the first string value of the first attribute among
  \<^verbatim>\<open>printer-dns-sd-name\<close>, \<^verbatim>\<open>printer-info\<close>, \<^verbatim>\<open>printer-make-and-model\<close> that is present with a
  string as its first value, be it empty or not; the USB device info has no part in it.
  It returns whenever each attribute it looks up, if present, holds values of a single
  type, and \<^verbatim>\<open>printer-device-id\<close>, \<^verbatim>\<open>printer-location\<close>, \<^verbatim>\<open>printer-uuid\<close> and
  \<^verbatim>\<open>printer-make-and-model\<close> are present with a string as their first value.
\<close>

theorem DNSSdName_chain:
  "(ippAttrs_decode h attrs usbinfo = Inr (ippinfo, svc) \<longrightarrow>
      DNSSdName ippinfo =
        first_non_empty
          [string_value attrs ''printer-dns-sd-name'', string_value attrs ''printer-info'',
           string_value attrs ''printer-make-and-model'', MfgAndProduct usbinfo]) \<and>
   (list_all (one_type attrs) decode_lookups \<longrightarrow> returns (ippAttrs_decode h attrs usbinfo)) \<and>
   (Decode attrs = Inr (dnssd_name, info) \<longrightarrow>
      (\<exists>name. find (has_string attrs)
                 [''printer-dns-sd-name'', ''printer-info'', ''printer-make-and-model'']
               = Some name \<and>
              dnssd_name = string_value attrs name)) \<and>
   (list_all (one_type attrs) Decode_lookups \<and> list_all (has_string attrs) Decode_strings \<longrightarrow>
      returns (Decode attrs))"
proof -
  have "DNSSdName ippinfo =
        first_non_empty
          [string_value attrs ''printer-dns-sd-name'', string_value attrs ''printer-info'',
           string_value attrs ''printer-make-and-model'', MfgAndProduct usbinfo]"
    if "ippAttrs_decode h attrs usbinfo = Inr (ippinfo, svc)"
    using ippAttrs_decode_Inr [OF that] decode_DNSSdName_Inr by metis
  moreover have "returns (ippAttrs_decode h attrs usbinfo)"
    if "list_all (one_type attrs) decode_lookups"
    using that by (rule ippAttrs_decode_returns)
  moreover have "\<exists>name. find (has_string attrs)
                 [''printer-dns-sd-name'', ''printer-info'', ''printer-make-and-model'']
               = Some name \<and>
              dnssd_name = string_value attrs name"
    if "Decode attrs = Inr (dnssd_name, info)"
    using getString_Inr [OF Decode_Inr [OF that]] .
  moreover have "returns (Decode attrs)"
    if "list_all (one_type attrs) Decode_lookups" "list_all (has_string attrs) Decode_strings"
    using that by (rule Decode_returns)
  ultimately show ?thesis by blast
qed

theorem DNSSdName_chain_witness:
  "map_sum id (\<lambda>r. DNSSdName (fst r))
     (ippAttrs_decode helpers_example (newIppDecoder message_example) usbinfo_example)
     = Inr ''Office printer'' \<and>
   list_all (one_type (newIppDecoder message_example)) decode_lookups \<and>
   returns (ippAttrs_decode helpers_example (newIppDecoder message_example) usbinfo_example) \<and>
   list_all (one_type (newIppDecoder message_full)) Decode_lookups \<and>
   list_all (has_string (newIppDecoder message_full)) Decode_strings \<and>
   returns (Decode (newIppDecoder message_full)) \<and>
   map_sum id fst (Decode (newIppDecoder message_full)) =
     Inr (string_value (newIppDecoder message_full) ''printer-dns-sd-name'')"
proof -
  let ?a = "newIppDecoder message_example"
  let ?b = "newIppDecoder message_full"
  have o: "list_all (one_type ?a) decode_lookups" by code_simp
  have r: "returns (ippAttrs_decode helpers_example ?a usbinfo_example)"
    using DNSSdName_chain [of helpers_example ?a usbinfo_example] o by blast
  then obtain ippinfo svc where
    e: "ippAttrs_decode helpers_example ?a usbinfo_example = Inr (ippinfo, svc)"
    by (auto simp: returns_iff)
  from DNSSdName_chain [of helpers_example ?a usbinfo_example ippinfo svc] e
  have n: "DNSSdName ippinfo =
      first_non_empty
        [string_value ?a ''printer-dns-sd-name'', string_value ?a ''printer-info'',
         string_value ?a ''printer-make-and-model'', MfgAndProduct usbinfo_example]"
    by blast
  have f: "first_non_empty
        [string_value ?a ''printer-dns-sd-name'', string_value ?a ''printer-info'',
         string_value ?a ''printer-make-and-model'', MfgAndProduct usbinfo_example]
      = ''Office printer''"
    by code_simp
  have l: "list_all (one_type ?b) Decode_lookups" "list_all (has_string ?b) Decode_strings"
    by code_simp+
  have rb: "returns (Decode ?b)"
    using DNSSdName_chain [of _ ?b] l by blast
  then obtain dnssd_name info where d: "Decode ?b = Inr (dnssd_name, info)"
    by (auto simp: returns_iff)
  from DNSSdName_chain [of _ ?b _ _ _ dnssd_name info] d obtain name where
    m: "find (has_string ?b)
          [''printer-dns-sd-name'', ''printer-info'', ''printer-make-and-model''] = Some name"
      "dnssd_name = string_value ?b name"
    by blast
  have "find (has_string ?b)
          [''printer-dns-sd-name'', ''printer-info'', ''printer-make-and-model'']
        = Some ''printer-dns-sd-name''"
    by code_simp
  with m have "dnssd_name = string_value ?b ''printer-dns-sd-name''" by simp
  with e n f o r d l rb show ?thesis by simp
qed

end
